theory Spec2Isabelle
  imports Complex_Main
begin

section \<open>Data model\<close>

text \<open>
  The service keeps user records and refresh-session records in a document store and
  hands e-mail jobs to a queue. Time stamps are the milliseconds of \<open>Date.getTime()\<close>.
\<close>

type_synonym userId = nat
type_synonym timestamp = int

text \<open>
  Modelled from the spec: the salted one-way password hash of the credential store
  (\<open>model/UserModel\<close> is not part of the sources). The hash is idealised: it records the
  salt and verifies exactly the password that was hashed; it is never compared or shown
  in clear by the operations below.
\<close>

datatype pwhash = Hash nat string

fun verifyHash :: "string \<Rightarrow> pwhash \<Rightarrow> bool" where
  "verifyHash candidate (Hash s p) = (candidate = p)"

record user =
  u_id :: userId
  username :: string
  email :: string
  password :: pwhash
  verified :: bool
  verificationToken :: "string option"
  passwordRecoveryToken :: "string option"
  passwordRecoveryRequestDate :: "timestamp option"

record session =
  s_userId :: userId
  refreshToken :: string
  expiryDate :: timestamp

record notification =
  n_type :: string
  message :: string

text \<open>The decoded claims of a bearer token, which the transport layer puts in \<open>req.user\<close>.\<close>

record authUser =
  a_id :: userId
  a_username :: string
  a_email :: string
  a_verified :: bool

record request =
  req_user :: "authUser option"
  cookie_refreshToken :: "string option"
  cookie_clientId :: "string option"

record response =
  statusCode :: "nat option"
  set_refreshToken :: "string option"

datatype template = VerifyEmailTemplate | ResetPasswordEmailTemplate

record emailJob =
  clientId :: "string option"
  link :: string
  recipient :: string
  subject :: string
  template :: template

text \<open>
  The parts of the configuration the controller reads. \<open>getRouterAddress\<close> and the two
  lifetimes belong to modules that are not part of the sources and are taken as given.
\<close>

record config =
  mailTransporter :: bool
  graphiql :: bool
  getRouterAddress :: "request \<Rightarrow> string"
  sessionLifetime :: int
  authTokenLifetime :: int

record world =
  users :: "user list"
  sessions :: "session list"
  jobs :: "emailJob list"

text \<open>
  What a call reads from outside the program: the clock (\<open>new Date()\<close>), the value
  returned by \<open>generateToken\<close> and the salt drawn by the password hash.
\<close>

record env =
  now :: timestamp
  freshToken :: string
  salt :: nat

text \<open>
  A failure of the persistence layer: the field of the violated uniqueness constraint, when
  there is one, and the text of the message (\<open>err.message\<close>).
\<close>

record storeFailure =
  constraintField :: "string option"
  failureMessage :: string

text \<open>
  \<open>StoreNotFound\<close> is the not-found failure of a store operation, whose message the
  spec does not give; \<open>Uncaught\<close> is a persistence failure that reaches the caller as it is.
\<close>

datatype error =
    AlreadyLoggedInError string
  | EmailAlreadyConfirmedError string
  | EmailAlreadyExistsError string
  | UpdatePasswordTooLateError string
  | UsernameAlreadyExistsError string
  | UserNotFound string
  | UserValidationError string
  | WrongPasswordError string
  | StoreNotFound
  | Uncaught storeFailure

definition TOKEN_LENGTH :: nat where
  "TOKEN_LENGTH = 64"

definition DELAY_TO_CHANGE_PASSWORD_IN_MINUTS :: int where
  "DELAY_TO_CHANGE_PASSWORD_IN_MINUTS = 60"

section \<open>JavaScript strings and truthiness\<close>

fun startsWith :: "string \<Rightarrow> string \<Rightarrow> bool" where
  "startsWith [] s = True"
| "startsWith (p # ps) [] = False"
| "startsWith (p # ps) (c # cs) = (p = c \<and> startsWith ps cs)"

text \<open>\<open>s.includes(sub)\<close>\<close>

fun str_includes :: "string \<Rightarrow> string \<Rightarrow> bool" where
  "str_includes [] sub = (sub = [])"
| "str_includes (c # cs) sub = (startsWith sub (c # cs) \<or> str_includes cs sub)"

text \<open>\<open>s.replace(pat, rep)\<close> with a string pattern: the first occurrence only.\<close>

fun replaceFirst :: "string \<Rightarrow> string \<Rightarrow> string \<Rightarrow> string" where
  "replaceFirst [] pat rep = (if pat = [] then rep else [])"
| "replaceFirst (c # cs) pat rep =
     (if startsWith pat (c # cs) then rep @ drop (length pat) (c # cs)
      else c # replaceFirst cs pat rep)"

text \<open>A string value that may be \<open>undefined\<close> is truthy when it is present and not empty.\<close>

fun truthy :: "string option \<Rightarrow> bool" where
  "truthy None = False"
| "truthy (Some s) = (s \<noteq> [])"

section \<open>Credential store\<close>

datatype userFilter =
    ById userId
  | ByEmail string
  | ByUsername string
  | ByVerificationToken string
  | ByPasswordRecoveryToken string

fun matches :: "userFilter \<Rightarrow> user \<Rightarrow> bool" where
  "matches (ById i) u = (u_id u = i)"
| "matches (ByEmail e) u = (email u = e)"
| "matches (ByUsername n) u = (username u = n)"
| "matches (ByVerificationToken t) u = (verificationToken u = Some t)"
| "matches (ByPasswordRecoveryToken t) u = (passwordRecoveryToken u = Some t)"

text \<open>
  The fields a store update may carry. \<open>None\<close> leaves a field as it is; for a nullable field
  \<open>Some None\<close> clears it (the \<open>null\<close> and \<open>undefined\<close> the controller writes).
\<close>

record patch =
  p_username :: "string option"
  p_email :: "string option"
  p_password :: "string option"
  p_verified :: "bool option"
  p_verificationToken :: "string option option"
  p_passwordRecoveryToken :: "string option option"
  p_passwordRecoveryRequestDate :: "timestamp option option"

definition noPatch :: patch where
  "noPatch = \<lparr>p_username = None, p_email = None, p_password = None, p_verified = None,
     p_verificationToken = None, p_passwordRecoveryToken = None,
     p_passwordRecoveryRequestDate = None\<rparr>"

text \<open>
  The credential store (\<open>model/UserModel\<close>) is not part of the sources; its operations
  follow the spec, on a list of user records in which a filter finds the first match, as
  \<open>findOne\<close> does.
\<close>

text \<open>
  Modelled from the spec: \<open>userExists(filter)\<close> of the credential store.
\<close>

definition userExists :: "userFilter \<Rightarrow> user list \<Rightarrow> bool" where
  "userExists f us = (find (matches f) us \<noteq> None)"

text \<open>
  Modelled from the spec: \<open>getUser(filter)\<close> of the credential store; \<open>None\<close> is its not-found
  failure.
\<close>

definition getUser :: "userFilter \<Rightarrow> user list \<Rightarrow> user option" where
  "getUser f us = find (matches f) us"

text \<open>
  Modelled from the spec: \<open>isPasswordValid(filter, candidate)\<close> of the credential store, false
  both for an unknown user and for a wrong password.
\<close>

definition isPasswordValid :: "userFilter \<Rightarrow> string option \<Rightarrow> user list \<Rightarrow> bool" where
  "isPasswordValid f candidate us =
     (case getUser f us of
        None \<Rightarrow> False
      | Some u \<Rightarrow> (case candidate of None \<Rightarrow> False | Some c \<Rightarrow> verifyHash c (password u)))"

text \<open>
  Modelled from the spec: the public projection of a user, without the hash and the tokens.
\<close>

definition publicFields :: "user \<Rightarrow> authUser" where
  "publicFields u = \<lparr>a_id = u_id u, a_username = username u, a_email = email u,
     a_verified = verified u\<rparr>"

text \<open>
  Modelled from the spec: \<open>getUserNonInternalFields(filter)\<close> of the credential store.
\<close>

definition getUserNonInternalFields :: "userFilter \<Rightarrow> user list \<Rightarrow> authUser option" where
  "getUserNonInternalFields f us = map_option publicFields (getUser f us)"

text \<open>
  Modelled from the spec: the uniqueness failure of the persistence layer, which names the
  colliding field. The wording of the message is the document store's, with the field and
  the colliding value in the text.
\<close>

definition duplicateKey :: "string \<Rightarrow> string \<Rightarrow> storeFailure" where
  "duplicateKey field val =
     \<lparr>constraintField = Some field,
      failureMessage = ''E11000 duplicate key error index: '' @ field @ ''_1 dup key: { ''
        @ field @ '': '' @ val @ '' }''\<rparr>"

text \<open>
  Modelled from the spec: the validation failure for a username of fewer than 5 characters.
\<close>

definition usernameTooShort :: storeFailure where
  "usernameTooShort =
     \<lparr>constraintField = None,
      failureMessage = ''Validation failed: username: The username must contains more than 4 characters!''\<rparr>"

text \<open>
  Modelled from the spec: the effect of an update on the matched user; a new password is
  hashed with a new salt.
\<close>

definition applyPatch :: "nat \<Rightarrow> patch \<Rightarrow> user \<Rightarrow> user" where
  "applyPatch s p u =
     u\<lparr>username := (case p_username p of None \<Rightarrow> username u | Some n \<Rightarrow> n),
       email := (case p_email p of None \<Rightarrow> email u | Some e \<Rightarrow> e),
       password := (case p_password p of None \<Rightarrow> password u | Some pw \<Rightarrow> Hash s pw),
       verified := (case p_verified p of None \<Rightarrow> verified u | Some b \<Rightarrow> b),
       verificationToken :=
         (case p_verificationToken p of None \<Rightarrow> verificationToken u | Some t \<Rightarrow> t),
       passwordRecoveryToken :=
         (case p_passwordRecoveryToken p of None \<Rightarrow> passwordRecoveryToken u | Some t \<Rightarrow> t),
       passwordRecoveryRequestDate :=
         (case p_passwordRecoveryRequestDate p of
            None \<Rightarrow> passwordRecoveryRequestDate u | Some d \<Rightarrow> d)\<rparr>"

text \<open>The first record that matches is replaced; the others stay.\<close>

fun updateFirst :: "('a \<Rightarrow> bool) \<Rightarrow> ('a \<Rightarrow> 'a) \<Rightarrow> 'a list \<Rightarrow> 'a list" where
  "updateFirst P f [] = []"
| "updateFirst P f (x # xs) = (if P x then f x # xs else x # updateFirst P f xs)"

text \<open>
  Modelled from the spec: another user already holds the value of a unique field.
\<close>

definition collides :: "userFilter \<Rightarrow> userId \<Rightarrow> user list \<Rightarrow> bool" where
  "collides f self us = (find (\<lambda>u. matches f u \<and> u_id u \<noteq> self) us \<noteq> None)"

text \<open>
  Modelled from the spec: \<open>updateUser(filter, patch)\<close> of the credential store. The
  username is validated, the uniqueness of username and e-mail is enforced, and the
  first match is updated; with no match nothing is written.
\<close>

definition store_updateUser ::
  "nat \<Rightarrow> userFilter \<Rightarrow> patch \<Rightarrow> user list \<Rightarrow> storeFailure + user list" where
  "store_updateUser s f p us =
     (case p_username p of
        Some n \<Rightarrow> if length n < 5 then Inl usernameTooShort else
          (case getUser f us of
             None \<Rightarrow> Inr us
           | Some u \<Rightarrow>
               if collides (ByUsername n) (u_id u) us then Inl (duplicateKey ''username'' n)
               else (case p_email p of
                  Some e \<Rightarrow> if collides (ByEmail e) (u_id u) us
                            then Inl (duplicateKey ''email'' e)
                            else Inr (updateFirst (matches f) (applyPatch s p) us)
                | None \<Rightarrow> Inr (updateFirst (matches f) (applyPatch s p) us)))
      | None \<Rightarrow>
          (case getUser f us of
             None \<Rightarrow> Inr us
           | Some u \<Rightarrow>
               (case p_email p of
                  Some e \<Rightarrow> if collides (ByEmail e) (u_id u) us
                            then Inl (duplicateKey ''email'' e)
                            else Inr (updateFirst (matches f) (applyPatch s p) us)
                | None \<Rightarrow> Inr (updateFirst (matches f) (applyPatch s p) us))))"

section \<open>Password recovery\<close>

text \<open>
  The argument of \<open>new Date(...)\<close> in \<open>recoverPassword\<close> and the time it gives:
  \<open>undefined\<close> gives an invalid date, whose time is \<open>NaN\<close> (here \<open>None\<close>);
  \<open>null\<close> gives the epoch; a time stamp gives itself.
\<close>

datatype dateArg = Undefined | Null | Millis timestamp

fun getTime :: "dateArg \<Rightarrow> int option" where
  "getTime Undefined = None"
| "getTime Null = Some 0"
| "getTime (Millis d) = Some d"

text \<open>
  Modelled from the spec: the request date of a user is a nullable time stamp, so a user
  without a recorded date reads back \<open>null\<close>.
\<close>

definition readRequestDate :: "user \<Rightarrow> dateArg" where
  "readRequestDate u =
     (case passwordRecoveryRequestDate u of None \<Rightarrow> Null | Some d \<Rightarrow> Millis d)"

text \<open>
  \<open>Math.floor(diff / 1000 / 60)\<close> of the absolute difference of the two clock readings;
  with an invalid date the result is \<open>NaN\<close>, and \<open>NaN >= 60\<close> is false.
\<close>

definition elapsedMinutes :: "timestamp \<Rightarrow> dateArg \<Rightarrow> int option" where
  "elapsedMinutes actualDate resetDate =
     (case getTime resetDate of
        None \<Rightarrow> None
      | Some t \<Rightarrow> Some \<lfloor>real_of_int \<bar>actualDate - t\<bar> / 1000 / 60\<rfloor>)"

definition tooLate :: "int option \<Rightarrow> bool" where
  "tooLate minutes =
     (case minutes of None \<Rightarrow> False | Some m \<Rightarrow> m \<ge> DELAY_TO_CHANGE_PASSWORD_IN_MINUTS)"

definition recoveryPatch :: "string \<Rightarrow> patch" where
  "recoveryPatch pw = noPatch\<lparr>p_password := Some pw, p_passwordRecoveryToken := Some None,
     p_passwordRecoveryRequestDate := Some None\<rparr>"

definition recoverPassword ::
  "env \<Rightarrow> string \<Rightarrow> string \<Rightarrow> world \<Rightarrow> (error + notification list) \<times> world" where
  "recoverPassword e pw tok w =
     (if length pw < 8
      then (Inl (UserValidationError ''The password must contain at least 8 characters!''), w)
      else if \<not> userExists (ByPasswordRecoveryToken tok) (users w)
      then (Inl (UserNotFound ''Unvalid token!''), w)
      else (case getUser (ByPasswordRecoveryToken tok) (users w) of
          None \<Rightarrow> (Inl (UserNotFound ''Unvalid token!''), w)
        | Some u \<Rightarrow>
            if tooLate (elapsedMinutes (now e) (readRequestDate u))
            then (Inl (UpdatePasswordTooLateError ''This link has expired, please ask a new one.''), w)
            else (case store_updateUser (salt e) (ById (u_id u)) (recoveryPatch pw) (users w) of
                Inl err \<Rightarrow> (Inl (Uncaught err), w)
              | Inr us \<Rightarrow>
                  (Inr [\<lparr>n_type = ''success'', message = ''Your password is updated!''\<rparr>],
                   w\<lparr>users := us\<rparr>))))"

section \<open>Session store\<close>

text \<open>
  The session store (\<open>model/SessionModel\<close>) is not part of the sources; its operations
  follow the spec, on a list of session records.
\<close>

fun removeFirst :: "('a \<Rightarrow> bool) \<Rightarrow> 'a list \<Rightarrow> 'a list" where
  "removeFirst P [] = []"
| "removeFirst P (x # xs) = (if P x then xs else x # removeFirst P xs)"

text \<open>
  Modelled from the spec: a session of the given user with the given refresh token.
\<close>

definition ownedBy :: "userId \<Rightarrow> string \<Rightarrow> session \<Rightarrow> bool" where
  "ownedBy uid tok s = (s_userId s = uid \<and> refreshToken s = tok)"

text \<open>
  Modelled from the spec: a session with the generated token and an expiry of now plus the
  session lifetime.
\<close>

definition newSession :: "config \<Rightarrow> env \<Rightarrow> userId \<Rightarrow> session" where
  "newSession cfg e uid =
     \<lparr>s_userId = uid, refreshToken = freshToken e, expiryDate = now e + sessionLifetime cfg\<rparr>"

text \<open>
  Modelled from the spec: \<open>createSession(userId)\<close> of the session store.
\<close>

definition createSession :: "config \<Rightarrow> env \<Rightarrow> userId \<Rightarrow> session list \<Rightarrow> session \<times> session list" where
  "createSession cfg e uid ss = (newSession cfg e uid, ss @ [newSession cfg e uid])"

text \<open>
  Modelled from the spec: \<open>removeSession(userId, refreshToken)\<close>, which deletes one matching
  session and does nothing when there is none.
\<close>

definition removeSession :: "userId \<Rightarrow> string \<Rightarrow> session list \<Rightarrow> session list" where
  "removeSession uid tok ss = removeFirst (ownedBy uid tok) ss"

text \<open>
  Modelled from the spec: \<open>removeOutdatedSessions(userId)\<close>, which purges the sessions of
  the user whose expiry is at or before now.
\<close>

definition removeOutdatedSessions :: "env \<Rightarrow> userId \<Rightarrow> session list \<Rightarrow> session list" where
  "removeOutdatedSessions e uid ss =
     filter (\<lambda>s. \<not> (s_userId s = uid \<and> expiryDate s \<le> now e)) ss"

text \<open>
  Modelled from the spec: \<open>isValid(userId, refreshToken)\<close>, true when a session of that pair
  exists and has not expired.
\<close>

definition isValid :: "env \<Rightarrow> userId \<Rightarrow> string option \<Rightarrow> session list \<Rightarrow> bool" where
  "isValid e uid cookie ss =
     (case cookie of
        None \<Rightarrow> False
      | Some tok \<Rightarrow> find (\<lambda>s. ownedBy uid tok s \<and> now e < expiryDate s) ss \<noteq> None)"

text \<open>
  Modelled from the spec: \<open>updateSession(userId, refreshToken)\<close>, which replaces the token and
  the expiry of the matched session and fails when there is none.
\<close>

definition updateSession ::
  "config \<Rightarrow> env \<Rightarrow> userId \<Rightarrow> string \<Rightarrow> session list \<Rightarrow> error + session \<times> session list" where
  "updateSession cfg e uid tok ss =
     (case find (ownedBy uid tok) ss of
        None \<Rightarrow> Inl StoreNotFound
      | Some s \<Rightarrow> Inr (newSession cfg e uid,
                       updateFirst (ownedBy uid tok) (\<lambda>_. newSession cfg e uid) ss))"

text \<open>
  Modelled from the spec: \<open>getUserAndSessionFromRefreshToken(refreshToken)\<close>, which gives
  nothing for an unknown or expired token.
\<close>

definition getUserAndSessionFromRefreshToken ::
  "env \<Rightarrow> string option \<Rightarrow> user list \<Rightarrow> session list \<Rightarrow> (user \<times> session) option" where
  "getUserAndSessionFromRefreshToken e cookie us ss =
     (case cookie of
        None \<Rightarrow> None
      | Some tok \<Rightarrow>
          (case find (\<lambda>s. refreshToken s = tok) ss of
             None \<Rightarrow> None
           | Some s \<Rightarrow>
               if now e < expiryDate s
               then (case getUser (ById (s_userId s)) us of
                       None \<Rightarrow> None
                     | Some u \<Rightarrow> Some (u, s))
               else None))"

section \<open>Token issuer\<close>

text \<open>
  Modelled from the spec: a signed bearer token, idealised as the claims it embeds (the
  public projection of the user) and its expiry.
\<close>

record authToken =
  claims :: authUser
  tokenExpiry :: timestamp

record tokenPayload =
  token :: authToken
  tokenExpiryDate :: timestamp
  tokenUser :: authUser

text \<open>
  Modelled from the spec: the issue of a token with a new expiry, returned with the expiry and
  the public projection.
\<close>

definition issue :: "config \<Rightarrow> env \<Rightarrow> user \<Rightarrow> tokenPayload" where
  "issue cfg e u =
     \<lparr>token = \<lparr>claims = publicFields u, tokenExpiry = now e + authTokenLifetime cfg\<rparr>,
      tokenExpiryDate = now e + authTokenLifetime cfg,
      tokenUser = publicFields u\<rparr>"

text \<open>
  Modelled from the spec: \<open>sign(filter, password, privateKey)\<close> of the credential store, which
  checks the password and fails with the not-found error of wrong credentials.
\<close>

definition sign :: "config \<Rightarrow> env \<Rightarrow> userFilter \<Rightarrow> string \<Rightarrow> user list \<Rightarrow> error + tokenPayload" where
  "sign cfg e f pw us =
     (case getUser f us of
        None \<Rightarrow> Inl (UserNotFound ''Wrong credentials!'')
      | Some u \<Rightarrow>
          if verifyHash pw (password u) then Inr (issue cfg e u)
          else Inl (UserNotFound ''Wrong credentials!''))"

text \<open>
  Modelled from the spec: \<open>refreshAuthToken(filter, privateKey)\<close>, which issues a token
  without a password check.
\<close>

definition refreshAuthToken :: "config \<Rightarrow> env \<Rightarrow> userFilter \<Rightarrow> user list \<Rightarrow> error + tokenPayload" where
  "refreshAuthToken cfg e f us =
     (case getUser f us of
        None \<Rightarrow> Inl StoreNotFound
      | Some u \<Rightarrow> Inr (issue cfg e u))"

section \<open>Controller\<close>

definition isUserLoggedIn :: "request \<Rightarrow> bool" where
  "isUserLoggedIn req = (req_user req \<noteq> None)"

definition isMockEmailAndClientCanReceivePreview :: "config \<Rightarrow> request \<Rightarrow> bool" where
  "isMockEmailAndClientCanReceivePreview cfg req =
     (\<not> mailTransporter cfg \<and> graphiql cfg \<and> truthy (cookie_clientId req))"

definition previewClient :: "config \<Rightarrow> request \<Rightarrow> string option" where
  "previewClient cfg req =
     (if isMockEmailAndClientCanReceivePreview cfg req then cookie_clientId req else None)"

definition sendConfirmationEmail ::
  "string \<Rightarrow> string \<Rightarrow> string \<Rightarrow> string option \<Rightarrow> emailJob list \<Rightarrow> emailJob list" where
  "sendConfirmationEmail userEmail confirmationToken host cid js =
     js @ [\<lparr>clientId = cid,
            link = host @ ''/user/email/confirmation?token='' @ confirmationToken,
            recipient = userEmail,
            subject = ''Activate your account'',
            template = VerifyEmailTemplate\<rparr>]"

definition confirmationInfo :: notification where
  "confirmationInfo =
     \<lparr>n_type = ''info'',
      message = ''You will receive a confirmation link at your email address in a few minutes.''\<rparr>"

subsection \<open>confirmEmail\<close>

text \<open>
  The page is the notification template rendered on the notifications; \<open>ejs.renderFile\<close>
  is taken as given, with its error passed to \<open>next\<close> and its page sent otherwise.
\<close>

datatype reply = Send string | Next string

definition renderPage :: "(notification list \<Rightarrow> string + string) \<Rightarrow> notification list \<Rightarrow> reply" where
  "renderPage render ns = (case render ns of Inl err \<Rightarrow> Next err | Inr html \<Rightarrow> Send html)"

definition confirmPatch :: patch where
  "confirmPatch = noPatch\<lparr>p_verificationToken := Some None, p_verified := Some True\<rparr>"

definition linkNotValid :: notification where
  "linkNotValid = \<lparr>n_type = ''error'', message = ''This link is not valid!''\<rparr>"

definition confirmEmail ::
  "(notification list \<Rightarrow> string + string) \<Rightarrow> env \<Rightarrow> string \<Rightarrow> world \<Rightarrow> reply \<times> world" where
  "confirmEmail render e tok w =
     (if \<not> userExists (ByVerificationToken tok) (users w)
      then (renderPage render [linkNotValid], w)
      else (case getUser (ByVerificationToken tok) (users w) of
          None \<Rightarrow> (renderPage render [linkNotValid], w)
        | Some u \<Rightarrow>
            (case store_updateUser (salt e) (ByEmail (email u)) confirmPatch (users w) of
               Inl err \<Rightarrow> (renderPage render [linkNotValid], w)
             | Inr us \<Rightarrow>
                 (renderPage render [\<lparr>n_type = ''success'', message = ''You are now verified!''\<rparr>],
                  w\<lparr>users := us\<rparr>))))"

subsection \<open>createUser\<close>

record registration =
  r_username :: string
  r_email :: string
  r_password :: "string option"
  r_verificationToken :: "string option"

text \<open>
  Modelled from the spec: the id of a new user, which no stored user has.
\<close>

definition newId :: "user list \<Rightarrow> userId" where
  "newId us = Suc (fold max (map u_id us) 0)"

text \<open>
  Modelled from the spec: \<open>createUser(fields)\<close> of the credential store. The username is
  validated, the uniqueness of username and e-mail is enforced, and the new user is stored
  unverified with the hash of the password.
\<close>

definition store_createUser :: "nat \<Rightarrow> registration \<Rightarrow> user list \<Rightarrow> storeFailure + user list" where
  "store_createUser s r us =
     (if length (r_username r) < 5 then Inl usernameTooShort
      else if userExists (ByUsername (r_username r)) us
      then Inl (duplicateKey ''username'' (r_username r))
      else if userExists (ByEmail (r_email r)) us
      then Inl (duplicateKey ''email'' (r_email r))
      else Inr (us @ [\<lparr>u_id = newId us, username = r_username r, email = r_email r,
                       password = Hash s (case r_password r of None \<Rightarrow> [] | Some pw \<Rightarrow> pw),
                       verified = False, verificationToken = r_verificationToken r,
                       passwordRecoveryToken = None, passwordRecoveryRequestDate = None\<rparr>]))"

text \<open>The \<open>catch\<close> block of \<open>createUser\<close>: the domain error is read off the message.\<close>

definition createUser_catch :: "storeFailure \<Rightarrow> error" where
  "createUser_catch err =
     (if str_includes (failureMessage err) ''username''
         \<and> str_includes (failureMessage err) ''duplicate key''
      then UsernameAlreadyExistsError ''Username already exists''
      else if str_includes (failureMessage err) ''email''
         \<and> str_includes (failureMessage err) ''duplicate key''
      then EmailAlreadyExistsError ''Email already exists''
      else UserValidationError
        (replaceFirst (failureMessage err) ''user validation failed: email: Path '' []))"

definition createUser ::
  "config \<Rightarrow> env \<Rightarrow> registration \<Rightarrow> request \<Rightarrow> world
     \<Rightarrow> (error + notification list \<times> registration) \<times> world" where
  "createUser cfg e user0 req w =
     (let user = user0\<lparr>r_verificationToken := Some (freshToken e)\<rparr> in
      if \<not> truthy (r_password user)
      then (Inl (UserValidationError ''Please provide a password!''), w)
      else if length (the (r_password user)) < 8
      then (Inl (UserValidationError ''The password must contain at least 8 characters!''), w)
      else (case store_createUser (salt e) user (users w) of
          Inl err \<Rightarrow> (Inl (createUser_catch err), w)
        | Inr us \<Rightarrow>
            (Inr ([\<lparr>n_type = ''success'', message = ''User created!''\<rparr>, confirmationInfo], user),
             w\<lparr>users := us,
               jobs := sendConfirmationEmail (r_email user) (freshToken e)
                         (getRouterAddress cfg req) (previewClient cfg req) (jobs w)\<rparr>)))"

subsection \<open>updateUser\<close>

text \<open>
  The fields of an update request that matter here; the profile fields, which no check of
  the controller reads, are left out.
\<close>

record userUpdates =
  up_username :: "string option"
  up_email :: "string option"
  up_password :: "string option"
  up_previousPassword :: "string option"

definition updateUser_catch :: "storeFailure \<Rightarrow> error" where
  "updateUser_catch err =
     (if str_includes (failureMessage err) ''username''
         \<and> str_includes (failureMessage err) ''duplicate key''
      then UsernameAlreadyExistsError ''Username already exists''
      else if str_includes (failureMessage err) ''email''
         \<and> str_includes (failureMessage err) ''duplicate key''
      then EmailAlreadyExistsError ''Email already exists''
      else UserValidationError
        (replaceFirst (failureMessage err) ''user validation failed: email: '' []))"

text \<open>
  The password branch at the head of \<open>updateUser\<close>: entered only for a truthy new
  password that differs from the previous one.
\<close>

definition checkPasswordChange :: "authUser \<Rightarrow> userUpdates \<Rightarrow> user list \<Rightarrow> error + userUpdates" where
  "checkPasswordChange ctx up us =
     (if truthy (up_password up) \<and> up_password up \<noteq> up_previousPassword up
      then (if \<not> isPasswordValid (ByEmail (a_email ctx)) (up_previousPassword up) us
            then Inl (WrongPasswordError ''Your previous password is wrong!'')
            else if length (the (up_password up)) < 8
            then Inl (UserValidationError ''The password must contain at least 8 characters!'')
            else Inr (up\<lparr>up_previousPassword := None\<rparr>))
      else Inr up)"

text \<open>\<open>req.user.verified && userUpdates.email\<close>\<close>

definition demotes :: "authUser \<Rightarrow> userUpdates \<Rightarrow> bool" where
  "demotes ctx up = (a_verified ctx \<and> truthy (up_email up))"

text \<open>
  What reaches the store: the requested fields and, when the e-mail is given by a
  verified caller, a new verification token and \<open>verified = false\<close>. The previous password
  is not a field of a user record.
\<close>

definition updatePatch :: "env \<Rightarrow> authUser \<Rightarrow> userUpdates \<Rightarrow> patch" where
  "updatePatch e ctx up =
     noPatch\<lparr>p_username := up_username up, p_email := up_email up, p_password := up_password up,
       p_verified := (if demotes ctx up then Some False else None),
       p_verificationToken := (if demotes ctx up then Some (Some (freshToken e)) else None)\<rparr>"

text \<open>
  The message of the \<open>TypeError\<close> raised inside the \<open>try\<close> block when the confirmation
  e-mail is built for a user that no longer exists.
\<close>

definition nullUserTypeError :: storeFailure where
  "nullUserTypeError =
     \<lparr>constraintField = None, failureMessage = ''Cannot read property 'email' of null''\<rparr>"

definition updateUser ::
  "config \<Rightarrow> env \<Rightarrow> userUpdates \<Rightarrow> request \<Rightarrow> response \<Rightarrow> world
     \<Rightarrow> (error + notification list \<times> authUser option) \<times> response \<times> world" where
  "updateUser cfg e up0 req res w =
     (case req_user req of
        None \<Rightarrow> (Inl (UserNotFound ''Please login!''), res\<lparr>statusCode := Some 401\<rparr>, w)
      | Some ctx \<Rightarrow>
          if \<not> isValid e (a_id ctx) (cookie_refreshToken req) (sessions w)
          then (Inl (UserNotFound ''Please login!''), res\<lparr>statusCode := Some 401\<rparr>, w)
          else (case checkPasswordChange ctx up0 (users w) of
              Inl err \<Rightarrow> (Inl err, res, w)
            | Inr up \<Rightarrow>
                (case store_updateUser (salt e) (ById (a_id ctx)) (updatePatch e ctx up) (users w) of
                   Inl err \<Rightarrow> (Inl (updateUser_catch err), res, w)
                 | Inr us \<Rightarrow>
                     if \<not> demotes ctx up
                     then (Inr ([\<lparr>n_type = ''success'', message = ''User information updated!''\<rparr>],
                                getUserNonInternalFields (ById (a_id ctx)) us),
                           res, w\<lparr>users := us\<rparr>)
                     else (case getUserNonInternalFields (ById (a_id ctx)) us of
                         None \<Rightarrow> (Inl (updateUser_catch nullUserTypeError), res, w\<lparr>users := us\<rparr>)
                       | Some ru \<Rightarrow>
                           (Inr ([\<lparr>n_type = ''success'', message = ''User information updated!''\<rparr>,
                                  confirmationInfo], Some ru),
                            res,
                            w\<lparr>users := us,
                              jobs := sendConfirmationEmail (a_email ru) (freshToken e)
                                        (getRouterAddress cfg req) (previewClient cfg req)
                                        (jobs w)\<rparr>)))))"

subsection \<open>login\<close>

definition login ::
  "config \<Rightarrow> env \<Rightarrow> string \<Rightarrow> string \<Rightarrow> request \<Rightarrow> response \<Rightarrow> world
     \<Rightarrow> (error + tokenPayload) \<times> response \<times> world" where
  "login cfg e loginStr pw req res w =
     (case (if userExists (ByEmail loginStr) (users w)
            then sign cfg e (ByEmail loginStr) pw (users w)
            else if userExists (ByUsername loginStr) (users w)
            then sign cfg e (ByUsername loginStr) pw (users w)
            else Inl (UserNotFound ''Wrong credentials!'')) of
        Inl err \<Rightarrow> (Inl err, res, w)
      | Inr payload \<Rightarrow>
          (let uid = a_id (tokenUser payload);
               ss1 = (if truthy (cookie_refreshToken req)
                      then removeSession uid (the (cookie_refreshToken req)) (sessions w)
                      else sessions w);
               ss2 = removeOutdatedSessions e uid ss1;
               created = createSession cfg e uid ss2
           in (Inr payload,
               res\<lparr>set_refreshToken := Some (refreshToken (fst created))\<rparr>,
               w\<lparr>sessions := snd created\<rparr>)))"

subsection \<open>sendPasswordRecoveryEmail\<close>

definition recoveryInfo :: notification where
  "recoveryInfo =
     \<lparr>n_type = ''info'',
      message = ''If your email address exists in our database, you will receive a password recovery link at your email address in a few minutes.''\<rparr>"

definition requestPatch :: "env \<Rightarrow> patch" where
  "requestPatch e = noPatch\<lparr>p_passwordRecoveryToken := Some (Some (freshToken e)),
     p_passwordRecoveryRequestDate := Some (Some (now e))\<rparr>"

definition sendPasswordRecoveryEmail ::
  "config \<Rightarrow> env \<Rightarrow> string \<Rightarrow> request \<Rightarrow> world \<Rightarrow> (error + notification list) \<times> world" where
  "sendPasswordRecoveryEmail cfg e addr req w =
     (if req_user req \<noteq> None
      then (Inl (AlreadyLoggedInError ''Oups, you are already logged in!''), w)
      else if \<not> userExists (ByEmail addr) (users w)
      then (Inr [recoveryInfo], w)
      else (case store_updateUser (salt e) (ByEmail addr) (requestPatch e) (users w) of
          Inl err \<Rightarrow> (Inl (Uncaught err), w)
        | Inr us \<Rightarrow>
            (case getUser (ByEmail addr) us of
               None \<Rightarrow> (Inl StoreNotFound, w\<lparr>users := us\<rparr>)
             | Some u \<Rightarrow>
                 (Inr [recoveryInfo],
                  w\<lparr>users := us,
                    jobs := jobs w @
                      [\<lparr>clientId = previewClient cfg req,
                        link = getRouterAddress cfg req @ ''/form/reset/password?token=''
                                 @ freshToken e,
                        recipient = addr,
                        subject = ''Password Recovery'',
                        template = ResetPasswordEmailTemplate\<rparr>]\<rparr>))))"

subsection \<open>refreshTokens\<close>

definition refreshTokens ::
  "config \<Rightarrow> env \<Rightarrow> request \<Rightarrow> response \<Rightarrow> world \<Rightarrow> (error + tokenPayload) \<times> response \<times> world" where
  "refreshTokens cfg e req res w =
     (case getUserAndSessionFromRefreshToken e (cookie_refreshToken req) (users w) (sessions w) of
        None \<Rightarrow> (Inl (UserNotFound ''Please login!''), res, w)
      | Some (u, s) \<Rightarrow>
          if now e < expiryDate s
          then (case refreshAuthToken cfg e (ById (u_id u)) (users w) of
              Inl err \<Rightarrow> (Inl err, res, w)
            | Inr payload \<Rightarrow>
                (case updateSession cfg e (u_id u) (refreshToken s) (sessions w) of
                   Inl err \<Rightarrow> (Inl err, res, w)
                 | Inr (s', ss) \<Rightarrow>
                     (Inr payload, res\<lparr>set_refreshToken := Some (refreshToken s')\<rparr>,
                      w\<lparr>sessions := ss\<rparr>)))
          else (Inl (UserNotFound ''Please login!''), res, w))"

subsection \<open>resendConfirmationEmail\<close>

text \<open>A token that is \<open>null\<close> is concatenated into the link as the text \<open>null\<close>.\<close>

definition tokenText :: "string option \<Rightarrow> string" where
  "tokenText t = (case t of None \<Rightarrow> ''null'' | Some s \<Rightarrow> s)"

definition resendConfirmationEmail ::
  "config \<Rightarrow> request \<Rightarrow> world \<Rightarrow> (error + notification list) \<times> world" where
  "resendConfirmationEmail cfg req w =
     (case req_user req of
        None \<Rightarrow> (Inl (UserNotFound ''Please login!''), w)
      | Some ctx \<Rightarrow>
          (case getUser (ById (a_id ctx)) (users w) of
             None \<Rightarrow> (Inl StoreNotFound, w)
           | Some u \<Rightarrow>
               if verified u
               then (Inl (EmailAlreadyConfirmedError
                            ''Your email adress has already been confirmed.''), w)
               else (Inr [\<lparr>n_type = ''success'',
                           message = ''You will receive a confirmation link at your email address in a few minutes.''\<rparr>],
                     w\<lparr>jobs := sendConfirmationEmail (a_email ctx)
                                  (tokenText (verificationToken u))
                                  (getRouterAddress cfg req) (previewClient cfg req) (jobs w)\<rparr>)))"

subsection \<open>deleteUser\<close>

text \<open>
  Modelled from the spec: \<open>removeUser\<close> deletes the first user that matches the filter.
\<close>

definition removeUser :: "userFilter \<Rightarrow> user list \<Rightarrow> user list" where
  "removeUser f us = removeFirst (matches f) us"

definition deleteUser :: "string \<Rightarrow> request \<Rightarrow> world \<Rightarrow> (error + notification list) \<times> world" where
  "deleteUser pw req w =
     (case req_user req of
        None \<Rightarrow> (Inl (UserNotFound ''Please login!''), w)
      | Some ctx \<Rightarrow>
          if \<not> isPasswordValid (ById (a_id ctx)) (Some pw) (users w)
          then (Inl (WrongPasswordError ''You entered a wrong password''), w)
          else (Inr [\<lparr>n_type = ''success'', message = ''Your account has been deleted.''\<rparr>],
                w\<lparr>users := removeUser (ById (a_id ctx)) (users w)\<rparr>))"

section \<open>Runs of the service\<close>

text \<open>
  The calls of the controller that write to a store or to the job queue, and the state
  after a sequence of them, each with its own readings of the clock and of the generators.
\<close>

datatype call =
    ConfirmEmail string
  | CreateUser registration request
  | ResendConfirmationEmail request
  | RecoverPassword string string
  | UpdateUser userUpdates request
  | DeleteUser string request
  | Login string string request
  | SendPasswordRecoveryEmail string request
  | RefreshTokens request

definition noResponse :: response where
  "noResponse = \<lparr>statusCode = None, set_refreshToken = None\<rparr>"

fun perform ::
  "config \<Rightarrow> (notification list \<Rightarrow> string + string) \<Rightarrow> env \<times> call \<Rightarrow> world \<Rightarrow> world" where
  "perform cfg render (e, ConfirmEmail tok) w = snd (confirmEmail render e tok w)"
| "perform cfg render (e, CreateUser r req) w = snd (createUser cfg e r req w)"
| "perform cfg render (e, ResendConfirmationEmail req) w = snd (resendConfirmationEmail cfg req w)"
| "perform cfg render (e, RecoverPassword pw tok) w = snd (recoverPassword e pw tok w)"
| "perform cfg render (e, UpdateUser up req) w = snd (snd (updateUser cfg e up req noResponse w))"
| "perform cfg render (e, DeleteUser pw req) w = snd (deleteUser pw req w)"
| "perform cfg render (e, Login l pw req) w = snd (snd (login cfg e l pw req noResponse w))"
| "perform cfg render (e, SendPasswordRecoveryEmail addr req) w =
     snd (sendPasswordRecoveryEmail cfg e addr req w)"
| "perform cfg render (e, RefreshTokens req) w = snd (snd (refreshTokens cfg e req noResponse w))"

fun run ::
  "config \<Rightarrow> (notification list \<Rightarrow> string + string) \<Rightarrow> (env \<times> call) list \<Rightarrow> world \<Rightarrow> world" where
  "run cfg render [] w = w"
| "run cfg render (c # cs) w = run cfg render cs (perform cfg render c w)"

section \<open>Outcomes named by the properties\<close>

text \<open>
  A recovery is accepted when the call returns the success notification and the new
  password verifies for the user afterwards.
\<close>

definition recoveryAccepted :: "env \<Rightarrow> string \<Rightarrow> string \<Rightarrow> world \<Rightarrow> userId \<Rightarrow> bool" where
  "recoveryAccepted e pw tok w i =
     (fst (recoverPassword e pw tok w) =
        Inr [\<lparr>n_type = ''success'', message = ''Your password is updated!''\<rparr>]
      \<and> isPasswordValid (ById i) (Some pw) (users (snd (recoverPassword e pw tok w))))"


text \<open>
  The user a login string is resolved to: by e-mail when a user has that address, else by
  username.
\<close>

definition resolveLogin :: "string \<Rightarrow> user list \<Rightarrow> user option" where
  "resolveLogin loginStr us =
     (if userExists (ByEmail loginStr) us then getUser (ByEmail loginStr) us
      else getUser (ByUsername loginStr) us)"

text \<open>
  A uniqueness failure whose message is of the wording the \<open>catch\<close> blocks look for: it
  contains ``duplicate key'' and the name of the colliding field, and for a collision on
  the e-mail it does not contain ``username''.
\<close>

definition wordedCollision :: "storeFailure \<Rightarrow> bool" where
  "wordedCollision err =
     (str_includes (failureMessage err) ''duplicate key''
      \<and> ((constraintField err = Some ''username''
             \<and> str_includes (failureMessage err) ''username'')
         \<or> (constraintField err = Some ''email''
             \<and> str_includes (failureMessage err) ''email''
             \<and> \<not> str_includes (failureMessage err) ''username'')))"

section \<open>Example states\<close>

definition alice :: user where
  "alice = \<lparr>u_id = 1, username = ''alice'', email = ''alice@test.com'',
     password = Hash 7 ''password'', verified = False, verificationToken = Some ''v-alice'',
     passwordRecoveryToken = Some ''r-alice'', passwordRecoveryRequestDate = Some 1000\<rparr>"

definition bob :: user where
  "bob = \<lparr>u_id = 2, username = ''bobby'', email = ''bob@test.com'',
     password = Hash 9 ''password2'', verified = True, verificationToken = None,
     passwordRecoveryToken = None, passwordRecoveryRequestDate = None\<rparr>"

definition world0 :: world where
  "world0 = \<lparr>users = [alice, bob], sessions = [], jobs = []\<rparr>"


definition cfg0 :: config where
  "cfg0 = \<lparr>mailTransporter = False, graphiql = True,
     getRouterAddress = (\<lambda>_. ''http://auth.test''),
     sessionLifetime = 1000000, authTokenLifetime = 1000\<rparr>"

definition render0 :: "notification list \<Rightarrow> string + string" where
  "render0 ns = Inr (concat (map message ns))"

definition bobSession :: session where
  "bobSession = \<lparr>s_userId = 2, refreshToken = ''rt-bob'', expiryDate = 100000\<rparr>"

definition world1 :: world where
  "world1 = world0\<lparr>sessions := [bobSession]\<rparr>"

definition anonymous :: request where
  "anonymous = \<lparr>req_user = None, cookie_refreshToken = None, cookie_clientId = None\<rparr>"

definition laterCalls :: "(env \<times> call) list" where
  "laterCalls =
     [(\<lparr>now = 6000, freshToken = ''rt-bob-3'', salt = 0\<rparr>,
         Login ''bob@test.com'' ''password2'' anonymous),
      (\<lparr>now = 7000, freshToken = ''rt-bob-4'', salt = 0\<rparr>,
         RefreshTokens (anonymous\<lparr>cookie_refreshToken := Some ''rt-bob-2''\<rparr>))]"

definition emailCollision :: storeFailure where
  "emailCollision =
     \<lparr>constraintField = Some ''email'',
      failureMessage = ''E11000 duplicate key error index: email_1 dup key: { email: username@test.com }''\<rparr>"

definition usernameCollision :: storeFailure where
  "usernameCollision =
     \<lparr>constraintField = Some ''username'',
      failureMessage = ''E11000 duplicate key error index: username_1 dup key: { username: bobby }''\<rparr>"

definition usernameCollisionReworded :: storeFailure where
  "usernameCollisionReworded =
     \<lparr>constraintField = Some ''username'',
      failureMessage = ''unique constraint violated on field username''\<rparr>"

definition bobRequest :: request where
  "bobRequest = \<lparr>req_user = Some (publicFields bob), cookie_refreshToken = Some ''rt-bob'',
     cookie_clientId = None\<rparr>"

definition noUpdates :: userUpdates where
  "noUpdates = \<lparr>up_username = None, up_email = None, up_password = None,
     up_previousPassword = None\<rparr>"

definition worldMoved :: world where
  "worldMoved = world1
     \<lparr>users := [alice, bob\<lparr>email := ''yoyo@whatever.com'', verified := False,
                             verificationToken := Some ''v-new''\<rparr>],
      jobs := [\<lparr>clientId = None,
                link = ''http://auth.test/user/email/confirmation?token=v-new'',
                recipient = ''yoyo@whatever.com'',
                subject = ''Activate your account'',
                template = VerifyEmailTemplate\<rparr>]\<rparr>"


definition takeAlice :: userUpdates where
  "takeAlice = noUpdates\<lparr>up_username := Some ''alice''\<rparr>"

definition usernameCollisionOtherWords :: storeFailure where
  "usernameCollisionOtherWords =
     \<lparr>constraintField = Some ''username'',
      failureMessage = ''duplicate key: the username alice is taken''\<rparr>"

definition registerAliceName :: registration where
  "registerAliceName = \<lparr>r_username = ''alice'', r_email = ''other@test.com'',
     r_password = Some ''password3'', r_verificationToken = None\<rparr>"

definition registerAliceEmail :: registration where
  "registerAliceEmail = \<lparr>r_username = ''carol'', r_email = ''alice@test.com'',
     r_password = Some ''password3'', r_verificationToken = None\<rparr>"

text \<open>
  The second example user leaves his address and a new user registers with it; the bearer
  token he was given before, as \<open>bobRequest\<close> carries it, still names the old address.
\<close>

definition carolRegistration :: registration where
  "carolRegistration = \<lparr>r_username = ''carol'', r_email = ''bob@test.com'',
     r_password = Some ''carolpass'', r_verificationToken = None\<rparr>"

definition staleCalls :: "(env \<times> call) list" where
  "staleCalls =
     [(\<lparr>now = 5000, freshToken = ''v-new'', salt = 0\<rparr>,
         UpdateUser (noUpdates\<lparr>up_email := Some ''yoyo@whatever.com''\<rparr>) bobRequest),
      (\<lparr>now = 6000, freshToken = ''v-carol'', salt = 5\<rparr>,
         CreateUser carolRegistration anonymous)]"

definition worldStale :: world where
  "worldStale = run cfg0 render0 staleCalls world1"

definition takeOver :: userUpdates where
  "takeOver = noUpdates\<lparr>up_password := Some ''newpassword'',
     up_previousPassword := Some ''carolpass''\<rparr>"

definition staleRequest :: request where
  "staleRequest = bobRequest\<lparr>req_user := Some ((publicFields bob)\<lparr>a_verified := False\<rparr>)\<rparr>"

definition bobMoved :: user where
  "bobMoved = bob\<lparr>email := ''yoyo@whatever.com'', verified := False,
     verificationToken := Some ''v-new''\<rparr>"

definition carol :: user where
  "carol = \<lparr>u_id = 3, username = ''carol'', email = ''bob@test.com'',
     password = Hash 5 ''carolpass'', verified = False, verificationToken = Some ''v-carol'',
     passwordRecoveryToken = None, passwordRecoveryRequestDate = None\<rparr>"

section \<open>Properties\<close>

subsection \<open>Lists, lookups and updates\<close>


lemma minutes_floor: "\<lfloor>real_of_int d / 1000 / 60\<rfloor> = d div 60000"
proof -
  have "real_of_int d / 1000 / 60 = real_of_int d / real_of_int 60000" by simp
  then show ?thesis by (simp only: floor_divide_of_int_eq)
qed

lemma div_ge_iff: "(0::int) \<le> x \<Longrightarrow> (60 \<le> x div 60000) = (3600000 \<le> x)"
  by linarith

lemma tooLate_iff:
  "tooLate (elapsedMinutes n (Millis d)) \<longleftrightarrow> 3600000 \<le> \<bar>n - d\<bar>"
  unfolding tooLate_def elapsedMinutes_def DELAY_TO_CHANGE_PASSWORD_IN_MINUTS_def getTime.simps
  by (simp only: option.case minutes_floor div_ge_iff[OF abs_ge_zero])

lemma updateFirst_by_id:
  "distinct (map u_id us) \<Longrightarrow>
   updateFirst (matches (ById i)) g us = map (\<lambda>v. if u_id v = i then g v else v) us"
proof (induction us)
  case Nil
  then show ?case by simp
next
  case (Cons a us)
  show ?case
  proof (cases "u_id a = i")
    case True
    with Cons.prems have "\<forall>v\<in>set us. u_id v \<noteq> i" by (auto simp: image_iff)
    then have "map (\<lambda>v. if u_id v = i then g v else v) us = us"
      by (simp add: map_idI)
    with True show ?thesis by simp
  next
    case False
    with Cons show ?thesis by simp
  qed
qed

lemma find_by_id:
  "distinct (map u_id us) \<Longrightarrow> u \<in> set us \<Longrightarrow> find (matches (ById (u_id u))) us = Some u"
  by (induction us) auto

lemma find_in_set: "find P xs = Some x \<Longrightarrow> x \<in> set xs \<and> P x"
  by (induction xs) (auto split: if_splits)

lemma find_updateFirst_same:
  "(\<And>x. P x \<Longrightarrow> P (g x)) \<Longrightarrow> find P (updateFirst P g xs) = map_option g (find P xs)"
  by (induction xs) auto

lemma updateFirst_none: "\<forall>x\<in>set xs. \<not> P x \<Longrightarrow> updateFirst P g xs = xs"
  by (induction xs) auto

lemma store_updateUser_plain:
  assumes "p_username p = None" and "p_email p = None"
  shows "store_updateUser s f p us = Inr (updateFirst (matches f) (applyPatch s p) us)"
proof (cases "find (matches f) us")
  case None
  then have "updateFirst (matches f) (applyPatch s p) us = us"
    by (simp add: find_None_iff updateFirst_none)
  with None assms show ?thesis by (simp add: store_updateUser_def getUser_def)
next
  case (Some u)
  with assms show ?thesis by (simp add: store_updateUser_def getUser_def)
qed

subsection \<open>Password recovery\<close>


lemma applyPatch_id [simp]: "u_id (applyPatch s p u) = u_id u"
  by (simp add: applyPatch_def)

lemma recoverPassword_eq:
  assumes "getUser (ByPasswordRecoveryToken tok) (users w) = Some u"
    and "passwordRecoveryRequestDate u = Some d"
    and "8 \<le> length pw"
  shows "recoverPassword e pw tok w =
     (if 3600000 \<le> \<bar>now e - d\<bar>
      then (Inl (UpdatePasswordTooLateError ''This link has expired, please ask a new one.''), w)
      else (Inr [\<lparr>n_type = ''success'', message = ''Your password is updated!''\<rparr>],
            w\<lparr>users := updateFirst (matches (ById (u_id u)))
                 (applyPatch (salt e) (recoveryPatch pw)) (users w)\<rparr>))"
proof -
  have ex: "userExists (ByPasswordRecoveryToken tok) (users w)"
    using assms(1) by (simp add: userExists_def getUser_def)
  have len: "\<not> length pw < 8" using assms(3) by simp
  have upd: "store_updateUser (salt e) (ById (u_id u)) (recoveryPatch pw) (users w) =
      Inr (updateFirst (matches (ById (u_id u))) (applyPatch (salt e) (recoveryPatch pw)) (users w))"
    by (rule store_updateUser_plain) (simp_all add: recoveryPatch_def noPatch_def)
  have rd: "readRequestDate u = Millis d"
    using assms(2) by (simp add: readRequestDate_def)
  show ?thesis
    unfolding recoverPassword_def
    by (simp only: len ex assms(1) rd tooLate_iff upd if_False not_True_eq_False
        not_not option.case sum.case if_True split: if_split)
qed

lemma isPasswordValid_after_update:
  assumes "find (matches (ById i)) us = Some u" and "p_password p = Some pw"
  shows "isPasswordValid (ById i) (Some pw) (updateFirst (matches (ById i)) (applyPatch s p) us)"
proof -
  have "find (matches (ById i)) (updateFirst (matches (ById i)) (applyPatch s p) us)
      = map_option (applyPatch s p) (find (matches (ById i)) us)"
    by (rule find_updateFirst_same) simp
  with assms show ?thesis
    by (simp add: isPasswordValid_def getUser_def applyPatch_def)
qed

text \<open>
  Claim C2. For a known recovery token with a recorded request date and a new password of
  at least 8 characters, \<open>recoverPassword\<close> accepts (success notification, new password
  stored) exactly when the request date and the current time are less than 60 minutes
  apart; from 60 minutes on it fails with \<open>UpdatePasswordTooLateError\<close> and leaves the
  state as it was. The elapsed time is the absolute difference of the two clock readings,
  as the code takes it.
\<close>

theorem recoverPassword_window:
  assumes "getUser (ByPasswordRecoveryToken tok) (users w) = Some u"
    and "passwordRecoveryRequestDate u = Some d"
    and "8 \<le> length pw"
  shows "(recoveryAccepted e pw tok w (u_id u) \<longleftrightarrow> \<bar>now e - d\<bar> < 60 * 60 * 1000)
       \<and> (60 * 60 * 1000 \<le> \<bar>now e - d\<bar> \<longrightarrow>
            recoverPassword e pw tok w =
              (Inl (UpdatePasswordTooLateError ''This link has expired, please ask a new one.''), w))"
proof -
  from assms(1) have "u \<in> set (users w)"
    by (simp add: getUser_def find_in_set)
  then have "find (matches (ById (u_id u))) (users w) \<noteq> None"
    by (auto simp: find_None_iff)
  then obtain v where v: "find (matches (ById (u_id u))) (users w) = Some v" by blast
  have valid: "isPasswordValid (ById (u_id u)) (Some pw)
     (updateFirst (matches (ById (u_id u))) (applyPatch (salt e) (recoveryPatch pw)) (users w))"
    by (rule isPasswordValid_after_update[OF v]) (simp add: recoveryPatch_def)
  show ?thesis
    unfolding recoveryAccepted_def recoverPassword_eq[OF assms]
    using valid by simp
qed


lemma filter_at_most_one:
  assumes "length (filter P xs) \<le> 1" and "x \<in> set xs" and "P x" and "y \<in> set xs" and "P y"
  shows "x = y"
proof -
  from assms have xy: "x \<in> set (filter P xs)" "y \<in> set (filter P xs)" by simp_all
  show ?thesis
  proof (cases "filter P xs")
    case Nil
    with xy show ?thesis by simp
  next
    case (Cons z zs)
    with assms(1) have "zs = []" by simp
    with Cons xy show ?thesis by simp
  qed
qed

lemma recoverPassword_success:
  assumes "recoverPassword e pw tok w = (Inr ns, w')"
  shows "\<exists>u. getUser (ByPasswordRecoveryToken tok) (users w) = Some u
      \<and> w' = w\<lparr>users := updateFirst (matches (ById (u_id u)))
                 (applyPatch (salt e) (recoveryPatch pw)) (users w)\<rparr>"
proof (cases "getUser (ByPasswordRecoveryToken tok) (users w)")
  case None
  with assms show ?thesis
    by (simp add: recoverPassword_def userExists_def getUser_def split: if_splits)
next
  case (Some u)
  have upd: "store_updateUser (salt e) (ById (u_id u)) (recoveryPatch pw) (users w) =
      Inr (updateFirst (matches (ById (u_id u))) (applyPatch (salt e) (recoveryPatch pw)) (users w))"
    by (rule store_updateUser_plain) (simp_all add: recoveryPatch_def noPatch_def)
  from assms Some upd show ?thesis
    unfolding recoverPassword_def
    by (auto split: if_splits)
qed

text \<open>
  Claim C3. After a successful \<open>recoverPassword\<close> the user found by the token has the
  new password stored as a hash and has no recovery token and no request date; presenting
  the same token again is refused, whatever the time and the password. User ids are
  unique and the token belongs to one user, as the data model requires.
\<close>

theorem recoverPassword_single_use:
  assumes "recoverPassword e pw tok w = (Inr ns, w')"
    and "distinct (map u_id (users w))"
    and "length (filter (matches (ByPasswordRecoveryToken tok)) (users w)) \<le> 1"
  shows "\<exists>u. getUser (ByPasswordRecoveryToken tok) (users w) = Some u
      \<and> getUser (ById (u_id u)) (users w') =
          Some (u\<lparr>password := Hash (salt e) pw, passwordRecoveryToken := None,
                  passwordRecoveryRequestDate := None\<rparr>)
      \<and> (\<forall>e' pw'. recoverPassword e' pw' tok w' =
            (Inl (if length pw' < 8
                  then UserValidationError ''The password must contain at least 8 characters!''
                  else UserNotFound ''Unvalid token!''), w'))"
proof -
  from recoverPassword_success[OF assms(1)] obtain u where
    u: "getUser (ByPasswordRecoveryToken tok) (users w) = Some u" and
    w': "w' = w\<lparr>users := updateFirst (matches (ById (u_id u)))
                 (applyPatch (salt e) (recoveryPatch pw)) (users w)\<rparr>"
    by blast
  let ?g = "applyPatch (salt e) (recoveryPatch pw)"
  from u find_in_set[of "matches (ByPasswordRecoveryToken tok)" "users w" u]
  have uin: "u \<in> set (users w)" and utok: "matches (ByPasswordRecoveryToken tok) u"
    by (simp_all add: getUser_def)
  have us': "users w' = map (\<lambda>v. if u_id v = u_id u then ?g v else v) (users w)"
    using w' updateFirst_by_id[OF assms(2)] by simp
  have "find (matches (ById (u_id u))) (users w') = map_option ?g (find (matches (ById (u_id u))) (users w))"
    using w' find_updateFirst_same[of "matches (ById (u_id u))" ?g "users w"] by simp
  then have stored: "getUser (ById (u_id u)) (users w') = Some (?g u)"
    using find_by_id[OF assms(2) uin] by (simp add: getUser_def)
  have gu: "?g u = u\<lparr>password := Hash (salt e) pw, passwordRecoveryToken := None,
                  passwordRecoveryRequestDate := None\<rparr>"
    by (simp add: applyPatch_def recoveryPatch_def noPatch_def)
  have cleared: "\<not> matches (ByPasswordRecoveryToken tok) v'" if "v' \<in> set (users w')" for v'
  proof -
    from that us' obtain v where v: "v \<in> set (users w)"
      and v': "v' = (if u_id v = u_id u then ?g v else v)" by auto
    show ?thesis
    proof (cases "u_id v = u_id u")
      case True
      with v' show ?thesis by (simp add: applyPatch_def recoveryPatch_def noPatch_def)
    next
      case False
      then have "v \<noteq> u" by auto
      with filter_at_most_one[OF assms(3) uin utok v] have "\<not> matches (ByPasswordRecoveryToken tok) v"
        by auto
      with False v' show ?thesis by simp
    qed
  qed
  then have gone: "\<not> userExists (ByPasswordRecoveryToken tok) (users w')"
    by (simp add: userExists_def find_None_iff)
  have again: "recoverPassword e' pw' tok w' =
            (Inl (if length pw' < 8
                  then UserValidationError ''The password must contain at least 8 characters!''
                  else UserNotFound ''Unvalid token!''), w')" for e' pw'
    using gone by (simp add: recoverPassword_def)
  from u stored gu again show ?thesis by simp
qed

text \<open>Claim C2 at 59 minutes 59.999 seconds and at 60 minutes after the request.\<close>

theorem recoverPassword_window_witness:
  "getUser (ByPasswordRecoveryToken ''r-alice'') (users world0) = Some alice
   \<and> passwordRecoveryRequestDate alice = Some 1000
   \<and> 8 \<le> length ''tototototo''
   \<and> recoveryAccepted \<lparr>now = 3600999, freshToken = ''t'', salt = 3\<rparr> ''tototototo'' ''r-alice'' world0 1
   \<and> recoverPassword \<lparr>now = 3601000, freshToken = ''t'', salt = 3\<rparr> ''tototototo'' ''r-alice'' world0 =
       (Inl (UpdatePasswordTooLateError ''This link has expired, please ask a new one.''), world0)"
proof -
  have h1: "getUser (ByPasswordRecoveryToken ''r-alice'') (users world0) = Some alice"
    by (simp add: getUser_def world0_def alice_def)
  have h2: "passwordRecoveryRequestDate alice = Some 1000" by (simp add: alice_def)
  have h3: "8 \<le> length ''tototototo''" by simp
  have i: "u_id alice = 1" by (simp add: alice_def)
  from recoverPassword_window[OF h1 h2 h3, of "\<lparr>now = 3600999, freshToken = ''t'', salt = 3\<rparr>"]
       recoverPassword_window[OF h1 h2 h3, of "\<lparr>now = 3601000, freshToken = ''t'', salt = 3\<rparr>"]
       h1 h2 h3 i
  show ?thesis by simp
qed

text \<open>Claim C3 on a recovery by the first example user, and a second use of her token.\<close>

theorem recoverPassword_single_use_witness:
  "recoverPassword \<lparr>now = 5000, freshToken = ''t'', salt = 3\<rparr> ''tototototo'' ''r-alice'' world0 =
     (Inr [\<lparr>n_type = ''success'', message = ''Your password is updated!''\<rparr>],
      world0\<lparr>users := [alice\<lparr>password := Hash 3 ''tototototo'', passwordRecoveryToken := None,
                  passwordRecoveryRequestDate := None\<rparr>, bob]\<rparr>)
   \<and> recoverPassword \<lparr>now = 6000, freshToken = ''t'', salt = 4\<rparr> ''titititi'' ''r-alice''
       (world0\<lparr>users := [alice\<lparr>password := Hash 3 ''tototototo'', passwordRecoveryToken := None,
                  passwordRecoveryRequestDate := None\<rparr>, bob]\<rparr>) =
     (Inl (UserNotFound ''Unvalid token!''),
      world0\<lparr>users := [alice\<lparr>password := Hash 3 ''tototototo'', passwordRecoveryToken := None,
                  passwordRecoveryRequestDate := None\<rparr>, bob]\<rparr>)"
proof -
  let ?w' = "world0\<lparr>users := [alice\<lparr>password := Hash 3 ''tototototo'', passwordRecoveryToken := None,
                  passwordRecoveryRequestDate := None\<rparr>, bob]\<rparr>"
  let ?e = "\<lparr>now = 5000, freshToken = ''t'', salt = 3\<rparr>"
  have h1: "getUser (ByPasswordRecoveryToken ''r-alice'') (users world0) = Some alice"
    by (simp add: getUser_def world0_def alice_def)
  have h2: "passwordRecoveryRequestDate alice = Some 1000" by (simp add: alice_def)
  have run: "recoverPassword ?e ''tototototo'' ''r-alice'' world0 =
     (Inr [\<lparr>n_type = ''success'', message = ''Your password is updated!''\<rparr>], ?w')"
    unfolding recoverPassword_eq[OF h1 h2, of "''tototototo''" ?e, simplified]
    by (simp add: world0_def alice_def bob_def applyPatch_def recoveryPatch_def noPatch_def)
  have d: "distinct (map u_id (users world0))"
    by (simp add: world0_def alice_def bob_def)
  have f: "length (filter (matches (ByPasswordRecoveryToken ''r-alice'')) (users world0)) \<le> 1"
    by (simp add: world0_def alice_def bob_def)
  from recoverPassword_single_use[OF run d f]
  have "\<forall>e' pw'. recoverPassword e' pw' ''r-alice'' ?w' =
            (Inl (if length pw' < 8
                  then UserValidationError ''The password must contain at least 8 characters!''
                  else UserNotFound ''Unvalid token!''), ?w')"
    by blast
  then have "recoverPassword \<lparr>now = 6000, freshToken = ''t'', salt = 4\<rparr> ''titititi'' ''r-alice'' ?w' =
            (Inl (if length ''titititi'' < 8
                  then UserValidationError ''The password must contain at least 8 characters!''
                  else UserNotFound ''Unvalid token!''), ?w')"
    by blast
  with run show ?thesis by simp
qed

subsection \<open>Rotation of refresh tokens\<close>


lemma set_removeFirst: "set (removeFirst P xs) \<subseteq> set xs"
  by (induction xs) auto

lemma set_updateFirst_const: "set (updateFirst P (\<lambda>_. y) xs) \<subseteq> insert y (set xs)"
  by (induction xs) auto

lemma rotation_drops_token:
  assumes "distinct (map refreshToken ss)"
    and "find (ownedBy uid old) ss = Some s"
    and "refreshToken y \<noteq> old"
  shows "old \<notin> refreshToken ` set (updateFirst (ownedBy uid old) (\<lambda>_. y) ss)"
  using assms
proof (induction ss)
  case Nil
  then show ?case by simp
next
  case (Cons a ss)
  show ?case
  proof (cases "ownedBy uid old a")
    case True
    then have "refreshToken a = old" by (simp add: ownedBy_def)
    with Cons.prems(1) have "old \<notin> refreshToken ` set ss" by auto
    with True Cons.prems(3) show ?thesis by simp
  next
    case False
    with Cons.prems(2) have f: "find (ownedBy uid old) ss = Some s" by simp
    then have "s \<in> set ss" and "ownedBy uid old s" using find_in_set[OF f] by simp_all
    then have "old \<in> refreshToken ` set ss" by (auto simp: ownedBy_def)
    with Cons.prems(1) have "refreshToken a \<noteq> old" by auto
    moreover from Cons.prems(1) have "distinct (map refreshToken ss)" by simp
    ultimately show ?thesis using False Cons.IH[OF _ f Cons.prems(3)] by simp
  qed
qed

lemma absent_token_invalid:
  assumes "old \<notin> refreshToken ` set ss"
  shows "\<not> isValid e uid (Some old) ss"
    and "getUserAndSessionFromRefreshToken e (Some old) us ss = None"
proof -
  from assms have "find (\<lambda>s. ownedBy uid old s \<and> now e < expiryDate s) ss = None"
    by (auto simp: find_None_iff ownedBy_def)
  then show "\<not> isValid e uid (Some old) ss" by (simp add: isValid_def)
  from assms have "find (\<lambda>s. refreshToken s = old) ss = None"
    by (auto simp: find_None_iff)
  then show "getUserAndSessionFromRefreshToken e (Some old) us ss = None"
    by (simp add: getUserAndSessionFromRefreshToken_def)
qed

lemma sessions_confirmEmail: "sessions (snd (confirmEmail render e tok w)) = sessions w"
  by (simp add: confirmEmail_def split: option.splits sum.splits)

lemma sessions_createUser: "sessions (snd (createUser cfg e r req w)) = sessions w"
  by (simp add: createUser_def Let_def split: sum.splits)

lemma sessions_resend: "sessions (snd (resendConfirmationEmail cfg req w)) = sessions w"
  by (simp add: resendConfirmationEmail_def split: option.splits)

lemma sessions_recoverPassword: "sessions (snd (recoverPassword e pw tok w)) = sessions w"
  by (simp add: recoverPassword_def split: option.splits sum.splits)

lemma sessions_updateUser: "sessions (snd (snd (updateUser cfg e up req res w))) = sessions w"
  by (simp add: updateUser_def split: option.splits sum.splits)

lemma sessions_deleteUser: "sessions (snd (deleteUser pw req w)) = sessions w"
  by (simp add: deleteUser_def split: option.splits)

lemma sessions_sendPasswordRecoveryEmail:
  "sessions (snd (sendPasswordRecoveryEmail cfg e addr req w)) = sessions w"
  by (simp add: sendPasswordRecoveryEmail_def split: option.splits sum.splits)

lemma sessions_login:
  "refreshToken ` set (sessions (snd (snd (login cfg e l pw req res w))))
     \<subseteq> insert (freshToken e) (refreshToken ` set (sessions w))"
proof -
  have a: "set (removeOutdatedSessions e uid ss) \<subseteq> set ss" for uid ss
    by (auto simp: removeOutdatedSessions_def)
  have b: "set (removeSession uid t ss) \<subseteq> set ss" for uid t ss
    by (simp add: removeSession_def set_removeFirst)
  have c: "set (snd (createSession cfg e uid ss)) = insert (newSession cfg e uid) (set ss)" for uid ss
    by (simp add: createSession_def)
  have d: "refreshToken (newSession cfg e uid) = freshToken e" for uid
    by (simp add: newSession_def)
  show ?thesis
    unfolding login_def Let_def
    using a b c d by (auto split: sum.splits) blast+
qed

lemma tokens_updateSession:
  assumes "updateSession cfg e uid tok ss = Inr (s', ss')"
  shows "refreshToken ` set ss' \<subseteq> insert (freshToken e) (refreshToken ` set ss)"
proof -
  from assms have "ss' = updateFirst (ownedBy uid tok) (\<lambda>_. newSession cfg e uid) ss"
    by (auto simp: updateSession_def split: option.splits)
  then have "set ss' \<subseteq> insert (newSession cfg e uid) (set ss)"
    by (simp add: set_updateFirst_const)
  then have "refreshToken ` set ss' \<subseteq> refreshToken ` insert (newSession cfg e uid) (set ss)"
    by (rule image_mono)
  then show ?thesis by (simp add: newSession_def)
qed

lemma refreshTokens_world:
  "snd (snd (refreshTokens cfg e req res w)) = w
   \<or> (\<exists>u s s' ss'.
        getUserAndSessionFromRefreshToken e (cookie_refreshToken req) (users w) (sessions w)
          = Some (u, s)
        \<and> updateSession cfg e (u_id u) (refreshToken s) (sessions w) = Inr (s', ss')
        \<and> snd (snd (refreshTokens cfg e req res w)) = w\<lparr>sessions := ss'\<rparr>)"
  by (auto simp: refreshTokens_def split: sum.splits option.splits prod.splits)

lemma sessions_refreshTokens:
  "refreshToken ` set (sessions (snd (snd (refreshTokens cfg e req res w))))
     \<subseteq> insert (freshToken e) (refreshToken ` set (sessions w))"
proof -
  from refreshTokens_world[of cfg e req res w]
  show ?thesis
  proof
    assume "snd (snd (refreshTokens cfg e req res w)) = w"
    then show ?thesis by auto
  next
    assume "\<exists>u s s' ss'.
        getUserAndSessionFromRefreshToken e (cookie_refreshToken req) (users w) (sessions w)
          = Some (u, s)
        \<and> updateSession cfg e (u_id u) (refreshToken s) (sessions w) = Inr (s', ss')
        \<and> snd (snd (refreshTokens cfg e req res w)) = w\<lparr>sessions := ss'\<rparr>"
    then obtain u :: user and s :: session and s' ss' where
      upd: "updateSession cfg e (u_id u) (refreshToken s) (sessions w) = Inr (s', ss')" and
      w': "snd (snd (refreshTokens cfg e req res w)) = w\<lparr>sessions := ss'\<rparr>"
      by blast
    from tokens_updateSession[OF upd] w' show ?thesis by simp
  qed
qed


lemma refreshTokens_success:
  assumes "refreshTokens cfg e req res w = (Inr payload, res', w')"
  shows "\<exists>u s s' ss'.
        getUserAndSessionFromRefreshToken e (cookie_refreshToken req) (users w) (sessions w)
          = Some (u, s)
        \<and> updateSession cfg e (u_id u) (refreshToken s) (sessions w) = Inr (s', ss')
        \<and> w' = w\<lparr>sessions := ss'\<rparr>"
  using assms
  by (auto simp: refreshTokens_def split: sum.splits option.splits prod.splits if_splits)

lemma lookup_token:
  assumes "getUserAndSessionFromRefreshToken e (Some old) us ss = Some (u, s)"
  shows "refreshToken s = old"
proof -
  from assms have "find (\<lambda>s. refreshToken s = old) ss = Some s"
    by (auto simp: getUserAndSessionFromRefreshToken_def split: option.splits if_splits)
  from find_in_set[OF this] show ?thesis by simp
qed

lemma perform_keeps_out:
  assumes "old \<notin> refreshToken ` set (sessions w)" and "freshToken (fst c) \<noteq> old"
  shows "old \<notin> refreshToken ` set (sessions (perform cfg render c w))"
proof (cases c)
  case (Pair e k)
  show ?thesis
  proof (cases k)
    case (Login l pw req)
    with Pair assms sessions_login[of cfg e l pw req noResponse w] show ?thesis by auto
  next
    case (RefreshTokens req)
    with Pair assms sessions_refreshTokens[of cfg e req noResponse w] show ?thesis by auto
  qed (use Pair assms in \<open>simp_all add: sessions_confirmEmail sessions_createUser sessions_resend
        sessions_recoverPassword sessions_updateUser sessions_deleteUser
        sessions_sendPasswordRecoveryEmail\<close>)
qed

lemma run_keeps_out:
  assumes "old \<notin> refreshToken ` set (sessions w)" and "\<forall>c\<in>set cs. freshToken (fst c) \<noteq> old"
  shows "old \<notin> refreshToken ` set (sessions (run cfg render cs w))"
  using assms
proof (induction cs arbitrary: w)
  case Nil
  then show ?case by simp
next
  case (Cons c cs)
  from Cons.prems have "old \<notin> refreshToken ` set (sessions (perform cfg render c w))"
    by (intro perform_keeps_out) simp_all
  with Cons show ?case by simp
qed

text \<open>
  Claim C1. When the refresh protocol has succeeded on a refresh token, so that
  \<open>updateSession\<close> has rotated the session, the previous token is refused in every
  state that any sequence of later calls of the controller reaches: \<open>isValid\<close> is false
  for it, for every user and at every time, and the refresh protocol fails on it with the
  not-found error. The tokens of the stored sessions are unique, as the data model
  requires, and the generator does not return the previous token again.
\<close>

theorem rotated_token_never_accepted:
  assumes "refreshTokens cfg e req res w = (Inr payload, res', w')"
    and "cookie_refreshToken req = Some old"
    and "distinct (map refreshToken (sessions w))"
    and "freshToken e \<noteq> old"
    and "\<forall>c\<in>set cs. freshToken (fst c) \<noteq> old"
  shows "\<not> isValid e' uid (Some old) (sessions (run cfg render cs w'))
       \<and> refreshTokens cfg e' (req'\<lparr>cookie_refreshToken := Some old\<rparr>) res'' (run cfg render cs w')
           = (Inl (UserNotFound ''Please login!''), res'', run cfg render cs w')"
proof -
  from refreshTokens_success[OF assms(1)] assms(2) obtain u :: user and s :: session and s' ss' where
    look: "getUserAndSessionFromRefreshToken e (Some old) (users w) (sessions w) = Some (u, s)" and
    upd: "updateSession cfg e (u_id u) (refreshToken s) (sessions w) = Inr (s', ss')" and
    w': "w' = w\<lparr>sessions := ss'\<rparr>"
    by auto
  from lookup_token[OF look] have tok: "refreshToken s = old" .
  from upd tok obtain s0 where
    found: "find (ownedBy (u_id u) old) (sessions w) = Some s0" and
    ss': "ss' = updateFirst (ownedBy (u_id u) old) (\<lambda>_. newSession cfg e (u_id u)) (sessions w)"
    by (auto simp: updateSession_def split: option.splits)
  have "refreshToken (newSession cfg e (u_id u)) \<noteq> old"
    using assms(4) by (simp add: newSession_def)
  from rotation_drops_token[OF assms(3) found this] ss' w'
  have "old \<notin> refreshToken ` set (sessions w')" by simp
  from run_keeps_out[OF this assms(5)]
  have out: "old \<notin> refreshToken ` set (sessions (run cfg render cs w'))" .
  from absent_token_invalid[OF out] show ?thesis
    by (simp add: refreshTokens_def)
qed

text \<open>
  Claim C1 on a rotation of the second example user's session, followed by a login and a
  further refresh.
\<close>

theorem rotated_token_never_accepted_witness:
  "refreshTokens cfg0 \<lparr>now = 5000, freshToken = ''rt-bob-2'', salt = 0\<rparr>
      (anonymous\<lparr>cookie_refreshToken := Some ''rt-bob''\<rparr>) noResponse world1
     = (Inr (issue cfg0 \<lparr>now = 5000, freshToken = ''rt-bob-2'', salt = 0\<rparr> bob),
        noResponse\<lparr>set_refreshToken := Some ''rt-bob-2''\<rparr>,
        world1\<lparr>sessions := [\<lparr>s_userId = 2, refreshToken = ''rt-bob-2'', expiryDate = 1005000\<rparr>]\<rparr>)
   \<and> distinct (map refreshToken (sessions world1))
   \<and> map (\<lambda>c. freshToken (fst c)) laterCalls = [''rt-bob-3'', ''rt-bob-4'']
   \<and> \<not> isValid \<lparr>now = 8000, freshToken = ''x'', salt = 0\<rparr> 2 (Some ''rt-bob'')
         (sessions (run cfg0 render0 laterCalls
            (world1\<lparr>sessions := [\<lparr>s_userId = 2, refreshToken = ''rt-bob-2'', expiryDate = 1005000\<rparr>]\<rparr>)))
   \<and> fst (refreshTokens cfg0 \<lparr>now = 8000, freshToken = ''x'', salt = 0\<rparr>
         (anonymous\<lparr>cookie_refreshToken := Some ''rt-bob''\<rparr>) noResponse
         (run cfg0 render0 laterCalls
            (world1\<lparr>sessions := [\<lparr>s_userId = 2, refreshToken = ''rt-bob-2'', expiryDate = 1005000\<rparr>]\<rparr>)))
       = Inl (UserNotFound ''Please login!'')"
proof -
  let ?e = "\<lparr>now = 5000, freshToken = ''rt-bob-2'', salt = 0\<rparr>"
  let ?w' = "world1\<lparr>sessions := [\<lparr>s_userId = 2, refreshToken = ''rt-bob-2'', expiryDate = 1005000\<rparr>]\<rparr>"
  have h1: "refreshTokens cfg0 ?e (anonymous\<lparr>cookie_refreshToken := Some ''rt-bob''\<rparr>) noResponse world1
     = (Inr (issue cfg0 ?e bob), noResponse\<lparr>set_refreshToken := Some ''rt-bob-2''\<rparr>, ?w')"
    by (simp add: refreshTokens_def getUserAndSessionFromRefreshToken_def world1_def world0_def
        bobSession_def anonymous_def getUser_def alice_def bob_def refreshAuthToken_def
        updateSession_def ownedBy_def newSession_def cfg0_def)
  have h2: "cookie_refreshToken (anonymous\<lparr>cookie_refreshToken := Some ''rt-bob''\<rparr>) = Some ''rt-bob''"
    by simp
  have h3: "distinct (map refreshToken (sessions world1))"
    by (simp add: world1_def)
  have h4: "freshToken ?e \<noteq> ''rt-bob''" by simp
  have h5: "\<forall>c\<in>set laterCalls. freshToken (fst c) \<noteq> ''rt-bob''"
    by (simp add: laterCalls_def)
  from rotated_token_never_accepted[OF h1 h2 h3 h4 h5,
      of "\<lparr>now = 8000, freshToken = ''x'', salt = 0\<rparr>" 2 render0 anonymous noResponse]
    h1 h3
  show ?thesis by (simp add: laterCalls_def)
qed

subsection \<open>Login failures\<close>

text \<open>
  Claim C4. A login string that matches no user's e-mail or username, and a login string
  that is resolved to a user (by e-mail first, else by username) whose password is not
  the one presented, both make \<open>login\<close> fail with the same not-found error and the
  same message; neither run changes the response or the state.
\<close>

theorem login_failures_indistinguishable:
  assumes "resolveLogin l1 (users w1) = None"
    and "resolveLogin l2 (users w2) = Some u"
    and "\<not> verifyHash pw2 (password u)"
  shows "login cfg e1 l1 pw1 req1 res1 w1 = (Inl (UserNotFound ''Wrong credentials!''), res1, w1)
       \<and> login cfg e2 l2 pw2 req2 res2 w2 = (Inl (UserNotFound ''Wrong credentials!''), res2, w2)"
proof -
  from assms(1) have no: "\<not> userExists (ByEmail l1) (users w1)" "\<not> userExists (ByUsername l1) (users w1)"
    by (auto simp: resolveLogin_def userExists_def getUser_def split: if_splits)
  then have first: "login cfg e1 l1 pw1 req1 res1 w1 = (Inl (UserNotFound ''Wrong credentials!''), res1, w1)"
    by (simp add: login_def)
  have second: "login cfg e2 l2 pw2 req2 res2 w2 = (Inl (UserNotFound ''Wrong credentials!''), res2, w2)"
  proof (cases "userExists (ByEmail l2) (users w2)")
    case True
    with assms(2) have "getUser (ByEmail l2) (users w2) = Some u" by (simp add: resolveLogin_def)
    with True assms(3) show ?thesis by (simp add: login_def sign_def)
  next
    case False
    with assms(2) have g: "getUser (ByUsername l2) (users w2) = Some u" by (simp add: resolveLogin_def)
    then have "userExists (ByUsername l2) (users w2)" by (simp add: userExists_def getUser_def)
    with False g assms(3) show ?thesis by (simp add: login_def sign_def)
  qed
  from first second show ?thesis by simp
qed

text \<open>
  Claim C4 on an unknown login string and on the second example user's username with the
  first user's password.
\<close>

theorem login_failures_indistinguishable_witness:
  "resolveLogin ''nobody'' (users world1) = None
   \<and> resolveLogin ''bobby'' (users world1) = Some bob
   \<and> \<not> verifyHash ''password'' (password bob)
   \<and> login cfg0 \<lparr>now = 10, freshToken = ''t1'', salt = 0\<rparr> ''nobody'' ''password2'' anonymous noResponse world1
       = (Inl (UserNotFound ''Wrong credentials!''), noResponse, world1)
   \<and> login cfg0 \<lparr>now = 10, freshToken = ''t1'', salt = 0\<rparr> ''bobby'' ''password'' anonymous noResponse world1
       = (Inl (UserNotFound ''Wrong credentials!''), noResponse, world1)"
proof -
  have h1: "resolveLogin ''nobody'' (users world1) = None"
    by (simp add: resolveLogin_def userExists_def getUser_def world1_def world0_def alice_def bob_def)
  have h2: "resolveLogin ''bobby'' (users world1) = Some bob"
    by (simp add: resolveLogin_def userExists_def getUser_def world1_def world0_def alice_def bob_def)
  have h3: "\<not> verifyHash ''password'' (password bob)" by (simp add: bob_def)
  from login_failures_indistinguishable[OF h1 h2 h3] h1 h2 h3 show ?thesis by simp
qed



subsection \<open>Password recovery e-mail\<close>

lemma exists_after_updateFirst:
  assumes "\<And>x. P (g x) = P x"
  shows "(find P (updateFirst Q g xs) = None) = (find P xs = None)"
  using assms by (induction xs) auto

lemma email_applyPatch: "p_email p = None \<Longrightarrow> email (applyPatch s p u) = email u"
  by (simp add: applyPatch_def)

text \<open>
  Claim C8. For a caller that is not authenticated \<open>sendPasswordRecoveryEmail\<close> returns
  the same single information notification whether or not a user has the address; for an
  authenticated caller it fails with \<open>AlreadyLoggedInError\<close>.
\<close>

theorem recovery_email_no_oracle:
  "fst (sendPasswordRecoveryEmail cfg e addr req w) =
     (if req_user req = None
      then Inr [\<lparr>n_type = ''info'',
                 message = ''If your email address exists in our database, you will receive a password recovery link at your email address in a few minutes.''\<rparr>]
      else Inl (AlreadyLoggedInError ''Oups, you are already logged in!''))"
proof (cases "req_user req = None")
  case False
  then show ?thesis by (simp add: sendPasswordRecoveryEmail_def)
next
  case True
  show ?thesis
  proof (cases "userExists (ByEmail addr) (users w)")
    case False
    with True show ?thesis by (simp add: sendPasswordRecoveryEmail_def recoveryInfo_def)
  next
    case ex: True
    have pe: "p_email (requestPatch e) = None" and pu: "p_username (requestPatch e) = None"
      by (simp_all add: requestPatch_def noPatch_def)
    have upd: "store_updateUser (salt e) (ByEmail addr) (requestPatch e) (users w) =
        Inr (updateFirst (matches (ByEmail addr)) (applyPatch (salt e) (requestPatch e)) (users w))"
      by (rule store_updateUser_plain[OF pu pe])
    have "(find (matches (ByEmail addr))
            (updateFirst (matches (ByEmail addr)) (applyPatch (salt e) (requestPatch e)) (users w)) = None)
        = (find (matches (ByEmail addr)) (users w) = None)"
      by (rule exists_after_updateFirst) (simp add: email_applyPatch[OF pe])
    with ex obtain u where
      "getUser (ByEmail addr)
         (updateFirst (matches (ByEmail addr)) (applyPatch (salt e) (requestPatch e)) (users w)) = Some u"
      by (auto simp: userExists_def getUser_def)
    with True ex upd show ?thesis
      by (simp add: sendPasswordRecoveryEmail_def recoveryInfo_def)
  qed
qed

text \<open>
  Claim C8 on an address that exists, on one that does not, and on an authenticated caller.
\<close>

theorem recovery_email_no_oracle_witness:
  "userExists (ByEmail ''alice@test.com'') (users world0)
   \<and> \<not> userExists (ByEmail ''nobody@test.com'') (users world0)
   \<and> fst (sendPasswordRecoveryEmail cfg0 \<lparr>now = 10, freshToken = ''t1'', salt = 0\<rparr> ''alice@test.com'' anonymous world0)
     = fst (sendPasswordRecoveryEmail cfg0 \<lparr>now = 10, freshToken = ''t1'', salt = 0\<rparr> ''nobody@test.com'' anonymous world0)
   \<and> fst (sendPasswordRecoveryEmail cfg0 \<lparr>now = 10, freshToken = ''t1'', salt = 0\<rparr> ''alice@test.com''
            (anonymous\<lparr>req_user := Some (publicFields bob)\<rparr>) world0)
     = Inl (AlreadyLoggedInError ''Oups, you are already logged in!'')"
proof -
  have h1: "userExists (ByEmail ''alice@test.com'') (users world0)"
    by (simp add: userExists_def world0_def alice_def)
  have h2: "\<not> userExists (ByEmail ''nobody@test.com'') (users world0)"
    by (simp add: userExists_def world0_def alice_def bob_def)
  have a: "req_user anonymous = None" by (simp add: anonymous_def)
  from recovery_email_no_oracle[of cfg0 "\<lparr>now = 10, freshToken = ''t1'', salt = 0\<rparr>" "''alice@test.com''" anonymous world0]
       recovery_email_no_oracle[of cfg0 "\<lparr>now = 10, freshToken = ''t1'', salt = 0\<rparr>" "''nobody@test.com''" anonymous world0]
       recovery_email_no_oracle[of cfg0 "\<lparr>now = 10, freshToken = ''t1'', salt = 0\<rparr>" "''alice@test.com''"
           "anonymous\<lparr>req_user := Some (publicFields bob)\<rparr>" world0]
       h1 h2 a
  show ?thesis by simp
qed

subsection \<open>E-mail confirmation\<close>

lemma updateFirst_by_key:
  "distinct (map k xs) \<Longrightarrow>
   updateFirst (\<lambda>v. k v = a) g xs = map (\<lambda>v. if k v = a then g v else v) xs"
proof (induction xs)
  case Nil
  then show ?case by simp
next
  case (Cons x xs)
  show ?case
  proof (cases "k x = a")
    case True
    with Cons.prems have "\<forall>v\<in>set xs. k v \<noteq> a" by (auto simp: image_iff)
    then have "map (\<lambda>v. if k v = a then g v else v) xs = xs"
      by (simp add: map_idI)
    with True show ?thesis by simp
  next
    case False
    with Cons show ?thesis by simp
  qed
qed

lemma matches_ByEmail: "matches (ByEmail a) = (\<lambda>v. email v = a)"
  by (rule ext) simp

lemma find_mapped: "find P (map h xs) = map_option h (find (P \<circ> h) xs)"
  by (induction xs) simp_all

lemma find_by_id_after_map:
  fixes h :: "user \<Rightarrow> user"
  assumes "distinct (map u_id us)" and "u \<in> set us" and "\<And>v. u_id (h v) = u_id v"
  shows "find (matches (ById (u_id u))) (map h us) = Some (h u)"
proof -
  have "matches (ById (u_id u)) \<circ> h = matches (ById (u_id u))"
    by (rule ext) (simp add: assms(3))
  then have "find (matches (ById (u_id u))) (map h us)
      = map_option h (find (matches (ById (u_id u))) us)"
    by (simp add: find_mapped)
  with find_by_id[OF assms(1) assms(2)] show ?thesis by simp
qed

text \<open>
  Claim C9. With a verification token that matches no user \<open>confirmEmail\<close> raises
  nothing: its reply is the notification page rendered on the single error notification
  ``This link is not valid!'', and the state is unchanged. With a token that matches, the
  page carries the success notification and the matched user is stored with no
  verification token and \<open>verified = true\<close>. Ids and e-mail addresses are unique.
\<close>

theorem confirmEmail_outcomes:
  "(\<not> userExists (ByVerificationToken tok) (users w) \<longrightarrow>
      confirmEmail render e tok w =
        (renderPage render [\<lparr>n_type = ''error'', message = ''This link is not valid!''\<rparr>], w))
   \<and> (getUser (ByVerificationToken tok) (users w) = Some u
        \<and> distinct (map u_id (users w)) \<and> distinct (map email (users w)) \<longrightarrow>
      fst (confirmEmail render e tok w) =
        renderPage render [\<lparr>n_type = ''success'', message = ''You are now verified!''\<rparr>]
      \<and> getUser (ById (u_id u)) (users (snd (confirmEmail render e tok w))) =
          Some (u\<lparr>verified := True, verificationToken := None\<rparr>))"
proof (intro conjI impI)
  assume "\<not> userExists (ByVerificationToken tok) (users w)"
  then show "confirmEmail render e tok w =
        (renderPage render [\<lparr>n_type = ''error'', message = ''This link is not valid!''\<rparr>], w)"
    by (simp add: confirmEmail_def linkNotValid_def)
next
  assume a: "getUser (ByVerificationToken tok) (users w) = Some u
        \<and> distinct (map u_id (users w)) \<and> distinct (map email (users w))"
  then have u: "getUser (ByVerificationToken tok) (users w) = Some u"
    and di: "distinct (map u_id (users w))" and de: "distinct (map email (users w))"
    by simp_all
  let ?g = "applyPatch (salt e) confirmPatch"
  let ?h = "\<lambda>v. if email v = email u then ?g v else v"
  from u have ex: "userExists (ByVerificationToken tok) (users w)"
    by (simp add: userExists_def getUser_def)
  from u find_in_set[of "matches (ByVerificationToken tok)" "users w" u]
  have uin: "u \<in> set (users w)" by (simp add: getUser_def)
  have "store_updateUser (salt e) (ByEmail (email u)) confirmPatch (users w) =
      Inr (updateFirst (matches (ByEmail (email u))) ?g (users w))"
    by (rule store_updateUser_plain) (simp_all add: confirmPatch_def noPatch_def)
  also have "updateFirst (matches (ByEmail (email u))) ?g (users w) = map ?h (users w)"
    unfolding matches_ByEmail by (rule updateFirst_by_key[OF de])
  finally have upd: "store_updateUser (salt e) (ByEmail (email u)) confirmPatch (users w) =
      Inr (map ?h (users w))" .
  from ex u upd have run: "confirmEmail render e tok w =
      (renderPage render [\<lparr>n_type = ''success'', message = ''You are now verified!''\<rparr>],
       w\<lparr>users := map ?h (users w)\<rparr>)"
    by (simp add: confirmEmail_def)
  have "find (matches (ById (u_id u))) (map ?h (users w)) = Some (?h u)"
    by (rule find_by_id_after_map[OF di uin]) simp
  moreover have "?h u = u\<lparr>verified := True, verificationToken := None\<rparr>"
    by (simp add: applyPatch_def confirmPatch_def noPatch_def)
  ultimately have "getUser (ById (u_id u)) (users (snd (confirmEmail render e tok w))) =
          Some (u\<lparr>verified := True, verificationToken := None\<rparr>)"
    using run by (simp add: getUser_def)
  with run show "fst (confirmEmail render e tok w) =
        renderPage render [\<lparr>n_type = ''success'', message = ''You are now verified!''\<rparr>]"
    by simp
  from \<open>getUser (ById (u_id u)) (users (snd (confirmEmail render e tok w))) =
          Some (u\<lparr>verified := True, verificationToken := None\<rparr>)\<close>
  show "getUser (ById (u_id u)) (users (snd (confirmEmail render e tok w))) =
          Some (u\<lparr>verified := True, verificationToken := None\<rparr>)" .
qed

text \<open>
  Claim C9 on a wrong token and on the first example user's token.
\<close>

theorem confirmEmail_outcomes_witness:
  "\<not> userExists (ByVerificationToken ''WRONGTOKEN'') (users world0)
   \<and> confirmEmail render0 \<lparr>now = 10, freshToken = ''t1'', salt = 0\<rparr> ''WRONGTOKEN'' world0 =
        (Send ''This link is not valid!'', world0)
   \<and> getUser (ByVerificationToken ''v-alice'') (users world0) = Some alice
   \<and> distinct (map u_id (users world0)) \<and> distinct (map email (users world0))
   \<and> fst (confirmEmail render0 \<lparr>now = 10, freshToken = ''t1'', salt = 0\<rparr> ''v-alice'' world0) =
        Send ''You are now verified!''
   \<and> getUser (ById 1) (users (snd (confirmEmail render0 \<lparr>now = 10, freshToken = ''t1'', salt = 0\<rparr> ''v-alice'' world0))) =
        Some (alice\<lparr>verified := True, verificationToken := None\<rparr>)"
proof -
  let ?e = "\<lparr>now = 10, freshToken = ''t1'', salt = 0\<rparr>"
  have h1: "\<not> userExists (ByVerificationToken ''WRONGTOKEN'') (users world0)"
    by (simp add: userExists_def world0_def alice_def bob_def)
  have h2: "getUser (ByVerificationToken ''v-alice'') (users world0) = Some alice"
    by (simp add: getUser_def world0_def alice_def)
  have h3: "distinct (map u_id (users world0))" "distinct (map email (users world0))"
    by (simp_all add: world0_def alice_def bob_def)
  have i: "u_id alice = 1" by (simp add: alice_def)
  from confirmEmail_outcomes[of "''WRONGTOKEN''" world0 render0 ?e alice]
       confirmEmail_outcomes[of "''v-alice''" world0 render0 ?e alice]
       h1 h2 h3 i
  show ?thesis by (simp add: renderPage_def render0_def)
qed

subsection \<open>Translation of persistence failures\<close>

text \<open>
  Claim C5, refuted as stated. A failure whose colliding field is the e-mail, for an address
  that contains the word username, is translated to \<open>UsernameAlreadyExistsError\<close>; and
  two failures with the same colliding field, username, but different wording are
  translated to different errors.
\<close>

theorem constraint_translation_counterexample:
  "constraintField emailCollision = Some ''email''
   \<and> createUser_catch emailCollision = UsernameAlreadyExistsError ''Username already exists''
   \<and> updateUser_catch emailCollision = UsernameAlreadyExistsError ''Username already exists''
   \<and> constraintField usernameCollision = constraintField usernameCollisionReworded
   \<and> createUser_catch usernameCollision = UsernameAlreadyExistsError ''Username already exists''
   \<and> createUser_catch usernameCollisionReworded =
        UserValidationError ''unique constraint violated on field username''
   \<and> updateUser_catch usernameCollision = UsernameAlreadyExistsError ''Username already exists''
   \<and> updateUser_catch usernameCollisionReworded =
        UserValidationError ''unique constraint violated on field username''"
  by (simp add: emailCollision_def usernameCollision_def usernameCollisionReworded_def
      createUser_catch_def updateUser_catch_def)

lemma createUser_store_failure:
  assumes "truthy (r_password r)" and "8 \<le> length (the (r_password r))"
    and "store_createUser (salt e) (r\<lparr>r_verificationToken := Some (freshToken e)\<rparr>) (users w) = Inl err"
  shows "createUser cfg e r req w = (Inl (createUser_catch err), w)"
  using assms by (simp add: createUser_def Let_def)

lemma updateUser_store_failure:
  assumes "req_user req = Some ctx"
    and "isValid e (a_id ctx) (cookie_refreshToken req) (sessions w)"
    and "checkPasswordChange ctx up (users w) = Inr up1"
    and "store_updateUser (salt e) (ById (a_id ctx)) (updatePatch e ctx up1) (users w) = Inl err"
  shows "updateUser cfg e up req res w = (Inl (updateUser_catch err), res, w)"
  using assms by (simp add: updateUser_def)

lemma worded_catch:
  assumes "wordedCollision err"
  shows "createUser_catch err =
           (if constraintField err = Some ''username''
            then UsernameAlreadyExistsError ''Username already exists''
            else EmailAlreadyExistsError ''Email already exists'')"
    and "updateUser_catch err =
           (if constraintField err = Some ''username''
            then UsernameAlreadyExistsError ''Username already exists''
            else EmailAlreadyExistsError ''Email already exists'')"
    and "constraintField err = Some ''username'' \<or> constraintField err = Some ''email''"
  using assms
  by (auto simp: wordedCollision_def createUser_catch_def updateUser_catch_def)

text \<open>
  Claim C5, amended. For a uniqueness failure of the store during Register or UpdateMe whose
  message contains ``duplicate key'' and the name of the colliding field (and, for a
  collision on the e-mail, not ``username''), the call fails with
  \<open>UsernameAlreadyExistsError\<close> exactly when the colliding field is the username and with
  \<open>EmailAlreadyExistsError\<close> exactly when it is the e-mail, and writes nothing; two such
  failures with the same colliding field give the same error, whatever else their
  messages say. The field is read from the text of the message, so nothing is said of
  failures of another wording.
\<close>

theorem constraint_translation_by_field:
  assumes "wordedCollision err"
  shows "(truthy (r_password r) \<and> 8 \<le> length (the (r_password r))
          \<and> store_createUser (salt e) (r\<lparr>r_verificationToken := Some (freshToken e)\<rparr>) (users w)
              = Inl err \<longrightarrow>
            snd (createUser cfg e r req w) = w
            \<and> (fst (createUser cfg e r req w) =
                  Inl (UsernameAlreadyExistsError ''Username already exists''))
               = (constraintField err = Some ''username'')
            \<and> (fst (createUser cfg e r req w) =
                  Inl (EmailAlreadyExistsError ''Email already exists''))
               = (constraintField err = Some ''email''))
       \<and> (req_user rq = Some ctx \<and> isValid e (a_id ctx) (cookie_refreshToken rq) (sessions w)
          \<and> checkPasswordChange ctx up (users w) = Inr up1
          \<and> store_updateUser (salt e) (ById (a_id ctx)) (updatePatch e ctx up1) (users w)
              = Inl err \<longrightarrow>
            snd (updateUser cfg e up rq res w) = (res, w)
            \<and> (fst (updateUser cfg e up rq res w) =
                  Inl (UsernameAlreadyExistsError ''Username already exists''))
               = (constraintField err = Some ''username'')
            \<and> (fst (updateUser cfg e up rq res w) =
                  Inl (EmailAlreadyExistsError ''Email already exists''))
               = (constraintField err = Some ''email''))
       \<and> (wordedCollision err' \<and> constraintField err' = constraintField err \<longrightarrow>
            createUser_catch err' = createUser_catch err
            \<and> updateUser_catch err' = updateUser_catch err)"
proof (intro conjI impI)
  note c = worded_catch[OF assms]
  have ne: "Some ''username'' \<noteq> Some ''email''" by simp
  {
    assume a: "truthy (r_password r) \<and> 8 \<le> length (the (r_password r))
          \<and> store_createUser (salt e) (r\<lparr>r_verificationToken := Some (freshToken e)\<rparr>) (users w)
              = Inl err"
    then have run: "createUser cfg e r req w = (Inl (createUser_catch err), w)"
      using createUser_store_failure by blast
    show "snd (createUser cfg e r req w) = w" using run by simp
    show "(fst (createUser cfg e r req w) =
                  Inl (UsernameAlreadyExistsError ''Username already exists''))
               = (constraintField err = Some ''username'')"
      using run c(1) by simp
    show "(fst (createUser cfg e r req w) =
                  Inl (EmailAlreadyExistsError ''Email already exists''))
               = (constraintField err = Some ''email'')"
      using run c(1) c(3) by auto
  }
  {
    assume a: "req_user rq = Some ctx \<and> isValid e (a_id ctx) (cookie_refreshToken rq) (sessions w)
          \<and> checkPasswordChange ctx up (users w) = Inr up1
          \<and> store_updateUser (salt e) (ById (a_id ctx)) (updatePatch e ctx up1) (users w)
              = Inl err"
    then have run: "updateUser cfg e up rq res w = (Inl (updateUser_catch err), res, w)"
      using updateUser_store_failure by blast
    show "snd (updateUser cfg e up rq res w) = (res, w)" using run by simp
    show "(fst (updateUser cfg e up rq res w) =
                  Inl (UsernameAlreadyExistsError ''Username already exists''))
               = (constraintField err = Some ''username'')"
      using run c(2) by simp
    show "(fst (updateUser cfg e up rq res w) =
                  Inl (EmailAlreadyExistsError ''Email already exists''))
               = (constraintField err = Some ''email'')"
      using run c(2) c(3) by auto
  }
  {
    assume a: "wordedCollision err' \<and> constraintField err' = constraintField err"
    then have w': "wordedCollision err'" and same: "constraintField err' = constraintField err"
      by simp_all
    show "createUser_catch err' = createUser_catch err"
      using worded_catch(1)[OF w'] c(1) same by simp
    show "updateUser_catch err' = updateUser_catch err"
      using worded_catch(2)[OF w'] c(2) same by simp
  }
qed

text \<open>
  Claim C5, amended, on a registration and an update that take the first example user's
  username, on a failure of the same field in other words, and on a registration that
  takes her e-mail address.
\<close>

theorem constraint_translation_by_field_witness:
  "(wordedCollision (duplicateKey ''username'' ''alice'')
    \<and> store_createUser 0 (registerAliceName\<lparr>r_verificationToken := Some ''t1''\<rparr>) (users world1)
        = Inl (duplicateKey ''username'' ''alice'')
    \<and> createUser cfg0 \<lparr>now = 5000, freshToken = ''t1'', salt = 0\<rparr> registerAliceName anonymous world1
        = (Inl (UsernameAlreadyExistsError ''Username already exists''), world1)
    \<and> req_user bobRequest = Some (publicFields bob)
    \<and> isValid \<lparr>now = 5000, freshToken = ''t1'', salt = 0\<rparr> 2 (Some ''rt-bob'') (sessions world1)
    \<and> checkPasswordChange (publicFields bob) takeAlice (users world1) = Inr takeAlice
    \<and> store_updateUser 0 (ById 2)
         (updatePatch \<lparr>now = 5000, freshToken = ''t1'', salt = 0\<rparr> (publicFields bob) takeAlice)
         (users world1)
        = Inl (duplicateKey ''username'' ''alice'')
    \<and> updateUser cfg0 \<lparr>now = 5000, freshToken = ''t1'', salt = 0\<rparr> takeAlice bobRequest noResponse world1
        = (Inl (UsernameAlreadyExistsError ''Username already exists''), noResponse, world1)
    \<and> wordedCollision usernameCollisionOtherWords
    \<and> constraintField usernameCollisionOtherWords = constraintField (duplicateKey ''username'' ''alice'')
    \<and> failureMessage usernameCollisionOtherWords \<noteq> failureMessage (duplicateKey ''username'' ''alice'')
    \<and> createUser_catch usernameCollisionOtherWords = createUser_catch (duplicateKey ''username'' ''alice'')
    \<and> updateUser_catch usernameCollisionOtherWords = updateUser_catch (duplicateKey ''username'' ''alice''))
   \<and> (wordedCollision (duplicateKey ''email'' ''alice@test.com'')
    \<and> store_createUser 0 (registerAliceEmail\<lparr>r_verificationToken := Some ''t1''\<rparr>) (users world1)
        = Inl (duplicateKey ''email'' ''alice@test.com'')
    \<and> createUser cfg0 \<lparr>now = 5000, freshToken = ''t1'', salt = 0\<rparr> registerAliceEmail anonymous world1
        = (Inl (EmailAlreadyExistsError ''Email already exists''), world1))"
proof -
  let ?e = "\<lparr>now = 5000, freshToken = ''t1'', salt = 0\<rparr>"
  let ?ctx = "publicFields bob"
  let ?un = "duplicateKey ''username'' ''alice''"
  let ?em = "duplicateKey ''email'' ''alice@test.com''"
  have first: "wordedCollision ?un
    \<and> store_createUser 0 (registerAliceName\<lparr>r_verificationToken := Some ''t1''\<rparr>) (users world1) = Inl ?un
    \<and> createUser cfg0 ?e registerAliceName anonymous world1
        = (Inl (UsernameAlreadyExistsError ''Username already exists''), world1)
    \<and> req_user bobRequest = Some ?ctx
    \<and> isValid ?e 2 (Some ''rt-bob'') (sessions world1)
    \<and> checkPasswordChange ?ctx takeAlice (users world1) = Inr takeAlice
    \<and> store_updateUser 0 (ById 2) (updatePatch ?e ?ctx takeAlice) (users world1) = Inl ?un
    \<and> updateUser cfg0 ?e takeAlice bobRequest noResponse world1
        = (Inl (UsernameAlreadyExistsError ''Username already exists''), noResponse, world1)
    \<and> wordedCollision usernameCollisionOtherWords
    \<and> constraintField usernameCollisionOtherWords = constraintField ?un
    \<and> failureMessage usernameCollisionOtherWords \<noteq> failureMessage ?un
    \<and> createUser_catch usernameCollisionOtherWords = createUser_catch ?un
    \<and> updateUser_catch usernameCollisionOtherWords = updateUser_catch ?un"
  proof -
    have wc: "wordedCollision ?un" by (simp add: wordedCollision_def duplicateKey_def)
    have fld: "constraintField ?un = Some ''username''" by (simp add: duplicateKey_def)
    have p: "truthy (r_password registerAliceName)" "8 \<le> length (the (r_password registerAliceName))"
      by (simp_all add: registerAliceName_def)
    have sc: "store_createUser (salt ?e) (registerAliceName\<lparr>r_verificationToken := Some (freshToken ?e)\<rparr>)
        (users world1) = Inl ?un"
      by (simp add: store_createUser_def registerAliceName_def userExists_def world1_def world0_def
          alice_def bob_def)
    have h1: "req_user bobRequest = Some ?ctx" by (simp add: bobRequest_def)
    have h2: "isValid ?e (a_id ?ctx) (cookie_refreshToken bobRequest) (sessions world1)"
      by (simp add: isValid_def publicFields_def bob_def bobRequest_def world1_def bobSession_def
          ownedBy_def)
    have chk: "checkPasswordChange ?ctx takeAlice (users world1) = Inr takeAlice"
      by (simp add: checkPasswordChange_def takeAlice_def noUpdates_def)
    have su: "store_updateUser (salt ?e) (ById (a_id ?ctx)) (updatePatch ?e ?ctx takeAlice) (users world1)
        = Inl ?un"
      by (simp add: store_updateUser_def updatePatch_def demotes_def publicFields_def noUpdates_def
          takeAlice_def noPatch_def getUser_def collides_def alice_def bob_def world1_def world0_def)
    have wo: "wordedCollision usernameCollisionOtherWords"
      by (simp add: wordedCollision_def usernameCollisionOtherWords_def)
    have same: "constraintField usernameCollisionOtherWords = constraintField ?un"
      by (simp add: usernameCollisionOtherWords_def duplicateKey_def)
    have diff: "failureMessage usernameCollisionOtherWords \<noteq> failureMessage ?un"
      by (simp add: usernameCollisionOtherWords_def duplicateKey_def)
    note T = constraint_translation_by_field[OF wc, where r = registerAliceName and e = ?e
        and w = world1 and cfg = cfg0 and req = anonymous and rq = bobRequest and ctx = ?ctx
        and up = takeAlice and ?up1.0 = takeAlice and res = noResponse
        and err' = usernameCollisionOtherWords]
    from T[THEN conjunct1] p sc fld
    have r1: "snd (createUser cfg0 ?e registerAliceName anonymous world1) = world1"
      "fst (createUser cfg0 ?e registerAliceName anonymous world1) =
         Inl (UsernameAlreadyExistsError ''Username already exists'')"
      by blast+
    from T[THEN conjunct2, THEN conjunct1] h1 h2 chk su fld
    have r2: "snd (updateUser cfg0 ?e takeAlice bobRequest noResponse world1) = (noResponse, world1)"
      "fst (updateUser cfg0 ?e takeAlice bobRequest noResponse world1) =
         Inl (UsernameAlreadyExistsError ''Username already exists'')"
      by blast+
    from T[THEN conjunct2, THEN conjunct2] wo same
    have r3: "createUser_catch usernameCollisionOtherWords = createUser_catch ?un"
      "updateUser_catch usernameCollisionOtherWords = updateUser_catch ?un"
      by blast+
    have pf: "a_id ?ctx = 2" "cookie_refreshToken bobRequest = Some ''rt-bob''" "salt ?e = 0"
      "freshToken ?e = ''t1''"
      by (simp_all add: publicFields_def bob_def bobRequest_def)
    from r1 have run1: "createUser cfg0 ?e registerAliceName anonymous world1
        = (Inl (UsernameAlreadyExistsError ''Username already exists''), world1)"
      by (simp add: prod_eq_iff)
    from r2 have run2: "updateUser cfg0 ?e takeAlice bobRequest noResponse world1
        = (Inl (UsernameAlreadyExistsError ''Username already exists''), noResponse, world1)"
      by (simp add: prod_eq_iff)
    from wc sc run1 h1 h2 chk su run2 wo same diff r3 show ?thesis
      unfolding pf by (intro conjI)
  qed
  have second: "wordedCollision ?em
    \<and> store_createUser 0 (registerAliceEmail\<lparr>r_verificationToken := Some ''t1''\<rparr>) (users world1) = Inl ?em
    \<and> createUser cfg0 ?e registerAliceEmail anonymous world1
        = (Inl (EmailAlreadyExistsError ''Email already exists''), world1)"
  proof -
    have wc: "wordedCollision ?em" by (simp add: wordedCollision_def duplicateKey_def)
    have fld: "constraintField ?em = Some ''email''" by (simp add: duplicateKey_def)
    have p: "truthy (r_password registerAliceEmail)" "8 \<le> length (the (r_password registerAliceEmail))"
      by (simp_all add: registerAliceEmail_def)
    have sc: "store_createUser (salt ?e) (registerAliceEmail\<lparr>r_verificationToken := Some (freshToken ?e)\<rparr>)
        (users world1) = Inl ?em"
      by (simp add: store_createUser_def registerAliceEmail_def userExists_def world1_def world0_def
          alice_def bob_def)
    from constraint_translation_by_field[OF wc, where r = registerAliceEmail and e = ?e
        and w = world1 and cfg = cfg0 and req = anonymous, THEN conjunct1] p sc fld
    have r1: "snd (createUser cfg0 ?e registerAliceEmail anonymous world1) = world1"
      "fst (createUser cfg0 ?e registerAliceEmail anonymous world1) =
         Inl (EmailAlreadyExistsError ''Email already exists'')"
      by blast+
    then have run1: "createUser cfg0 ?e registerAliceEmail anonymous world1
        = (Inl (EmailAlreadyExistsError ''Email already exists''), world1)"
      by (simp add: prod_eq_iff)
    have pf: "salt ?e = 0" "freshToken ?e = ''t1''" by simp_all
    from wc sc run1 show ?thesis unfolding pf by (intro conjI)
  qed
  from first second show ?thesis by (rule conjI)
qed

subsection \<open>Updates by the logged-in user\<close>

text \<open>
  The check of the previous password, when the e-mail address of the token claims finds the
  caller's own record: an update whose new password is not empty and differs from the
  previous password given, where the previous password does not verify against the
  caller's stored hash, fails with \<open>WrongPasswordError\<close> and leaves the response and the
  state as they were, so that the password that verified before the call still logs in.
\<close>

lemma updateUser_wrong_previous_password:
  assumes "req_user req = Some ctx"
    and "isValid e (a_id ctx) (cookie_refreshToken req) (sessions w)"
    and "truthy (up_password up)"
    and "up_password up \<noteq> up_previousPassword up"
    and "getUser (ByEmail (a_email ctx)) (users w) = getUser (ById (a_id ctx)) (users w)"
    and "\<not> isPasswordValid (ById (a_id ctx)) (up_previousPassword up) (users w)"
  shows "updateUser cfg e up req res w =
           (Inl (WrongPasswordError ''Your previous password is wrong!''), res, w)
       \<and> (getUser (ByEmail (a_email ctx)) (users w) = Some u \<and> verifyHash old (password u) \<longrightarrow>
            fst (login cfg e' (a_email ctx) old req' res' (snd (snd (updateUser cfg e up req res w))))
              = Inr (issue cfg e' u))"
proof -
  from assms(5,6)
  have "\<not> isPasswordValid (ByEmail (a_email ctx)) (up_previousPassword up) (users w)"
    by (simp add: isPasswordValid_def)
  with assms(1-4) have fail: "updateUser cfg e up req res w =
           (Inl (WrongPasswordError ''Your previous password is wrong!''), res, w)"
    by (simp add: updateUser_def checkPasswordChange_def)
  have "fst (login cfg e' (a_email ctx) old req' res' w) = Inr (issue cfg e' u)"
    if "getUser (ByEmail (a_email ctx)) (users w) = Some u" and "verifyHash old (password u)"
    using that by (simp add: login_def userExists_def getUser_def sign_def Let_def)
  with fail show ?thesis by simp
qed

lemma store_updateUser_result:
  assumes "store_updateUser s f p us = Inr us'"
  shows "us' = updateFirst (matches f) (applyPatch s p) us"
proof (cases "find (matches f) us")
  case None
  then have "updateFirst (matches f) (applyPatch s p) us = us"
    by (simp add: find_None_iff updateFirst_none)
  with None assms show ?thesis
    by (auto simp: store_updateUser_def getUser_def split: option.splits if_splits)
next
  case (Some u)
  with assms show ?thesis
    by (auto simp: store_updateUser_def getUser_def split: option.splits if_splits)
qed

lemma getUser_after_store_update:
  assumes "store_updateUser s (ById i) p us = Inr us'" and "getUser (ById i) us = Some u"
  shows "getUser (ById i) us' = Some (applyPatch s p u)"
proof -
  have "find (matches (ById i)) (updateFirst (matches (ById i)) (applyPatch s p) us)
      = map_option (applyPatch s p) (find (matches (ById i)) us)"
    by (rule find_updateFirst_same) simp
  with store_updateUser_result[OF assms(1)] assms(2) show ?thesis
    by (simp add: getUser_def)
qed

lemma same_password_unchecked:
  "up_password up = up_previousPassword up \<Longrightarrow> checkPasswordChange ctx up us = Inr up"
  by (simp add: checkPasswordChange_def)

lemma updateUser_catch_not_wrong_password: "updateUser_catch err \<noteq> WrongPasswordError m"
  by (simp add: updateUser_catch_def)

lemma store_updateUser_failures:
  assumes "store_updateUser s f p us = Inl err"
  shows "err = usernameTooShort \<or> (\<exists>n. err = duplicateKey ''username'' n)
       \<or> (\<exists>a. err = duplicateKey ''email'' a)"
  using assms
  by (auto simp: store_updateUser_def split: option.splits if_splits)

lemma catch_usernameTooShort:
  "updateUser_catch usernameTooShort =
     UserValidationError ''Validation failed: username: The username must contains more than 4 characters!''"
  by (simp add: updateUser_catch_def usernameTooShort_def)

lemma catch_duplicate_username:
  "updateUser_catch (duplicateKey ''username'' n) = UsernameAlreadyExistsError ''Username already exists''"
  by (simp add: updateUser_catch_def duplicateKey_def)

lemma catch_duplicate_email:
  "updateUser_catch (duplicateKey ''email'' a) = UsernameAlreadyExistsError ''Username already exists''
   \<or> updateUser_catch (duplicateKey ''email'' a) = EmailAlreadyExistsError ''Email already exists''"
  by (simp add: updateUser_catch_def duplicateKey_def)

lemma catch_nullUser:
  "updateUser_catch nullUserTypeError = UserValidationError ''Cannot read property 'email' of null''"
  by (simp add: updateUser_catch_def nullUserTypeError_def)

lemma catch_duplicate_email_not_validation:
  "updateUser_catch (duplicateKey ''email'' a) \<noteq> UserValidationError m"
  using catch_duplicate_email[of a] by auto

lemma updateUser_after_check:
  assumes "req_user req = Some ctx"
    and "isValid e (a_id ctx) (cookie_refreshToken req) (sessions w)"
    and "checkPasswordChange ctx up (users w) = Inr up1"
  shows "fst (updateUser cfg e up req res w) =
     (case store_updateUser (salt e) (ById (a_id ctx)) (updatePatch e ctx up1) (users w) of
        Inl err \<Rightarrow> Inl (updateUser_catch err)
      | Inr us \<Rightarrow>
          if \<not> demotes ctx up1
          then Inr ([\<lparr>n_type = ''success'', message = ''User information updated!''\<rparr>],
                    getUserNonInternalFields (ById (a_id ctx)) us)
          else (case getUserNonInternalFields (ById (a_id ctx)) us of
                  None \<Rightarrow> Inl (updateUser_catch nullUserTypeError)
                | Some ru \<Rightarrow>
                    Inr ([\<lparr>n_type = ''success'', message = ''User information updated!''\<rparr>,
                          confirmationInfo], Some ru)))"
  using assms by (simp add: updateUser_def split: sum.splits option.splits)

lemma updateUser_world_after_check:
  assumes "req_user req = Some ctx"
    and "isValid e (a_id ctx) (cookie_refreshToken req) (sessions w)"
    and "checkPasswordChange ctx up (users w) = Inr up1"
    and "store_updateUser (salt e) (ById (a_id ctx)) (updatePatch e ctx up1) (users w) = Inr us"
  shows "users (snd (snd (updateUser cfg e up req res w))) = us"
  using assms by (simp add: updateUser_def split: sum.splits option.splits)

text \<open>
  Claim C10. For an authenticated caller with a valid session, an update whose new password
  equals the previous password given passes the password branch unchecked: the call
  cannot fail with \<open>WrongPasswordError\<close> nor with the error of the 8-character policy,
  and when the update carries nothing else the stored password becomes the hash of the
  given value, whatever the stored password was and however short the value is.
\<close>

theorem updateUser_same_password_unchecked:
  assumes "req_user req = Some ctx"
    and "isValid e (a_id ctx) (cookie_refreshToken req) (sessions w)"
    and "up_password up = Some pw"
    and "up_previousPassword up = Some pw"
  shows "checkPasswordChange ctx up (users w) = Inr up
       \<and> (\<forall>m. fst (updateUser cfg e up req res w) \<noteq> Inl (WrongPasswordError m))
       \<and> fst (updateUser cfg e up req res w) \<noteq>
            Inl (UserValidationError ''The password must contain at least 8 characters!'')
       \<and> (up_username up = None \<and> up_email up = None
            \<and> getUser (ById (a_id ctx)) (users w) = Some u \<longrightarrow>
          fst (updateUser cfg e up req res w) =
            Inr ([\<lparr>n_type = ''success'', message = ''User information updated!''\<rparr>],
                 Some (publicFields u))
          \<and> getUser (ById (a_id ctx)) (users (snd (snd (updateUser cfg e up req res w)))) =
              Some (u\<lparr>password := Hash (salt e) pw\<rparr>))"
proof -
  let ?store = "store_updateUser (salt e) (ById (a_id ctx)) (updatePatch e ctx up) (users w)"
  from assms(3,4) have chk: "checkPasswordChange ctx up (users w) = Inr up"
    by (simp add: same_password_unchecked)
  note res = updateUser_after_check[OF assms(1,2) chk, of cfg res]
  have catch1: "updateUser_catch err \<noteq>
      UserValidationError ''The password must contain at least 8 characters!''"
    if "?store = Inl err" for err
    using store_updateUser_failures[OF that]
    by (auto simp: catch_usernameTooShort catch_duplicate_username
        catch_duplicate_email_not_validation)
  have wrong: "fst (updateUser cfg e up req res w) \<noteq> Inl (WrongPasswordError m)" for m
    unfolding res
    by (simp add: updateUser_catch_not_wrong_password split: sum.splits option.splits)
  have short: "fst (updateUser cfg e up req res w) \<noteq>
            Inl (UserValidationError ''The password must contain at least 8 characters!'')"
    unfolding res using catch1
    by (simp add: catch_nullUser split: sum.splits option.splits)
  have applied: "fst (updateUser cfg e up req res w) =
            Inr ([\<lparr>n_type = ''success'', message = ''User information updated!''\<rparr>],
                 Some (publicFields u))
          \<and> getUser (ById (a_id ctx)) (users (snd (snd (updateUser cfg e up req res w)))) =
              Some (u\<lparr>password := Hash (salt e) pw\<rparr>)"
    if only: "up_username up = None" "up_email up = None"
      and u: "getUser (ById (a_id ctx)) (users w) = Some u"
  proof -
    let ?p = "updatePatch e ctx up"
    from only have nd: "\<not> demotes ctx up" by (simp add: demotes_def)
    from only have "p_username ?p = None" "p_email ?p = None"
      by (simp_all add: updatePatch_def noPatch_def)
    then have st: "?store = Inr (updateFirst (matches (ById (a_id ctx))) (applyPatch (salt e) ?p) (users w))"
      by (rule store_updateUser_plain)
    from getUser_after_store_update[OF st u]
    have g: "getUser (ById (a_id ctx))
        (updateFirst (matches (ById (a_id ctx))) (applyPatch (salt e) ?p) (users w))
        = Some (applyPatch (salt e) ?p u)" .
    have ap: "applyPatch (salt e) ?p u = u\<lparr>password := Hash (salt e) pw\<rparr>"
      using only assms(3) nd by (simp add: applyPatch_def updatePatch_def noPatch_def)
    have "fst (updateUser cfg e up req res w) =
            Inr ([\<lparr>n_type = ''success'', message = ''User information updated!''\<rparr>],
                 Some (publicFields u))"
      unfolding res using st nd g ap
      by (simp add: getUserNonInternalFields_def publicFields_def)
    moreover from updateUser_world_after_check[OF assms(1,2) chk st, of cfg res] g ap
    have "getUser (ById (a_id ctx)) (users (snd (snd (updateUser cfg e up req res w)))) =
              Some (u\<lparr>password := Hash (salt e) pw\<rparr>)"
      by simp
    ultimately show ?thesis by simp
  qed
  from chk wrong short applied show ?thesis by blast
qed

text \<open>
  Claim C10 on the second example user and the 4-character value ``toto'', which is not
  his password.
\<close>

theorem updateUser_same_password_unchecked_witness:
  "req_user bobRequest = Some (publicFields bob)
   \<and> isValid \<lparr>now = 5000, freshToken = ''t1'', salt = 4\<rparr> 2 (Some ''rt-bob'') (sessions world1)
   \<and> \<not> isPasswordValid (ById 2) (Some ''toto'') (users world1)
   \<and> length ''toto'' < 8
   \<and> fst (updateUser cfg0 \<lparr>now = 5000, freshToken = ''t1'', salt = 4\<rparr>
        (noUpdates\<lparr>up_password := Some ''toto'', up_previousPassword := Some ''toto''\<rparr>)
        bobRequest noResponse world1)
      = Inr ([\<lparr>n_type = ''success'', message = ''User information updated!''\<rparr>],
             Some (publicFields bob))
   \<and> getUser (ById 2) (users (snd (snd (updateUser cfg0 \<lparr>now = 5000, freshToken = ''t1'', salt = 4\<rparr>
        (noUpdates\<lparr>up_password := Some ''toto'', up_previousPassword := Some ''toto''\<rparr>)
        bobRequest noResponse world1))))
      = Some (bob\<lparr>password := Hash 4 ''toto''\<rparr>)"
proof -
  let ?e = "\<lparr>now = 5000, freshToken = ''t1'', salt = 4\<rparr>"
  let ?up = "noUpdates\<lparr>up_password := Some ''toto'', up_previousPassword := Some ''toto''\<rparr>"
  have h1: "req_user bobRequest = Some (publicFields bob)" by (simp add: bobRequest_def)
  have h2: "isValid ?e (a_id (publicFields bob)) (cookie_refreshToken bobRequest) (sessions world1)"
    by (simp add: isValid_def publicFields_def bob_def bobRequest_def world1_def bobSession_def
        ownedBy_def)
  have h3: "up_password ?up = Some ''toto''" "up_previousPassword ?up = Some ''toto''" by simp_all
  have h4: "up_username ?up = None" "up_email ?up = None" by (simp_all add: noUpdates_def)
  have g: "getUser (ById (a_id (publicFields bob))) (users world1) = Some bob"
    by (simp add: getUser_def publicFields_def world1_def world0_def alice_def bob_def)
  have n: "\<not> isPasswordValid (ById 2) (Some ''toto'') (users world1)"
    by (simp add: isPasswordValid_def getUser_def world1_def world0_def alice_def bob_def)
  have pf: "a_id (publicFields bob) = 2" "cookie_refreshToken bobRequest = Some ''rt-bob''"
    "salt ?e = 4"
    by (simp_all add: publicFields_def bob_def bobRequest_def)
  note T = updateUser_same_password_unchecked[OF h1 h2 h3, where cfg = cfg0 and res = noResponse
      and u = bob]
  from T h4 g have r: "fst (updateUser cfg0 ?e ?up bobRequest noResponse world1) =
            Inr ([\<lparr>n_type = ''success'', message = ''User information updated!''\<rparr>],
                 Some (publicFields bob))
          \<and> getUser (ById (a_id (publicFields bob))) (users (snd (snd (updateUser cfg0 ?e ?up bobRequest noResponse world1)))) =
              Some (bob\<lparr>password := Hash (salt ?e) ''toto''\<rparr>)"
    by blast
  from h1 h2 n r show ?thesis unfolding pf by simp
qed






subsection \<open>Token claims that are out of date\<close>

lemma bob_moves:
  "updateUser cfg0 \<lparr>now = 5000, freshToken = ''v-new'', salt = 0\<rparr>
      (noUpdates\<lparr>up_email := Some ''yoyo@whatever.com''\<rparr>) bobRequest noResponse world1
     = (Inr ([\<lparr>n_type = ''success'', message = ''User information updated!''\<rparr>, confirmationInfo],
             Some ((publicFields bob)\<lparr>a_email := ''yoyo@whatever.com'', a_verified := False\<rparr>)),
        noResponse, worldMoved)"
proof -
  let ?e = "\<lparr>now = 5000, freshToken = ''v-new'', salt = 0\<rparr>"
  let ?up = "noUpdates\<lparr>up_email := Some ''yoyo@whatever.com''\<rparr>"
  let ?ctx = "publicFields bob"
  let ?us = "[alice, bob\<lparr>email := ''yoyo@whatever.com'', verified := False,
                             verificationToken := Some ''v-new''\<rparr>]"
  have h1: "req_user bobRequest = Some ?ctx" by (simp add: bobRequest_def)
  have h2: "isValid ?e (a_id ?ctx) (cookie_refreshToken bobRequest) (sessions world1)"
    by (simp add: isValid_def publicFields_def bob_def bobRequest_def world1_def bobSession_def
        ownedBy_def)
  have chk: "checkPasswordChange ?ctx ?up (users world1) = Inr ?up"
    by (simp add: checkPasswordChange_def noUpdates_def)
  have dm: "demotes ?ctx ?up" by (simp add: demotes_def publicFields_def bob_def)
  have st: "store_updateUser 0 (ById (a_id ?ctx)) (updatePatch ?e ?ctx ?up) (users world1)
      = Inr ?us"
    by (simp add: store_updateUser_def updatePatch_def demotes_def publicFields_def noUpdates_def
        noPatch_def getUser_def collides_def alice_def bob_def applyPatch_def world1_def world0_def)
  have pub: "getUserNonInternalFields (ById (a_id ?ctx)) ?us
      = Some (?ctx\<lparr>a_email := ''yoyo@whatever.com'', a_verified := False\<rparr>)"
    by (simp add: getUserNonInternalFields_def getUser_def publicFields_def alice_def bob_def)
  have job: "sendConfirmationEmail ''yoyo@whatever.com'' ''v-new'' (getRouterAddress cfg0 bobRequest)
      (previewClient cfg0 bobRequest) (jobs world1) = jobs worldMoved"
    by (simp add: sendConfirmationEmail_def cfg0_def previewClient_def
        isMockEmailAndClientCanReceivePreview_def bobRequest_def world1_def world0_def
        worldMoved_def)
  show ?thesis
    unfolding updateUser_def
    by (simp add: h1 h2 chk st dm pub job) (simp add: worldMoved_def world1_def)
qed

lemma worldStale_stores:
  shows "users worldStale = [alice, bobMoved, carol]" and "sessions worldStale = [bobSession]"
proof -
  have m: "users worldMoved = [alice, bobMoved]" "sessions worldMoved = [bobSession]"
    by (simp_all add: worldMoved_def world1_def world0_def bobMoved_def)
  have reg: "store_createUser 5 (carolRegistration\<lparr>r_verificationToken := Some ''v-carol''\<rparr>)
      [alice, bobMoved] = Inr [alice, bobMoved, carol]"
    by (simp add: store_createUser_def carolRegistration_def userExists_def alice_def bobMoved_def
        bob_def carol_def newId_def)
  have w: "worldStale = snd (createUser cfg0 \<lparr>now = 6000, freshToken = ''v-carol'', salt = 5\<rparr>
      carolRegistration anonymous worldMoved)"
    by (simp add: worldStale_def staleCalls_def bob_moves)
  have p: "truthy (r_password carolRegistration)" "\<not> length (the (r_password carolRegistration)) < 8"
    by (simp_all add: carolRegistration_def)
  show "users worldStale = [alice, bobMoved, carol]"
    unfolding w createUser_def Let_def by (simp add: p m reg)
  show "sessions worldStale = [bobSession]"
    unfolding w createUser_def Let_def by (simp add: p m reg)
qed

text \<open>
  Claim C7, where the code departs from it. The caller's token claims name an address that
  he has left and that another account now holds. He asks for a new password and gives, as
  the previous one, the password of that other account, which does not verify against his
  own stored hash. The controller checks the previous password by the e-mail address of
  the claims and writes by the id: the call succeeds, the caller's stored hash is
  replaced, and his old password no longer logs in.
\<close>

theorem updateUser_stale_email_claim_replaces_password:
  "worldStale = run cfg0 render0 staleCalls world1
   \<and> req_user bobRequest = Some (publicFields bob)
   \<and> isValid \<lparr>now = 7000, freshToken = ''t3'', salt = 8\<rparr> 2 (Some ''rt-bob'') (sessions worldStale)
   \<and> up_password takeOver = Some ''newpassword''
   \<and> up_previousPassword takeOver = Some ''carolpass''
   \<and> \<not> isPasswordValid (ById 2) (Some ''carolpass'') (users worldStale)
   \<and> isPasswordValid (ById 2) (Some ''password2'') (users worldStale)
   \<and> fst (updateUser cfg0 \<lparr>now = 7000, freshToken = ''t3'', salt = 8\<rparr> takeOver bobRequest
            noResponse worldStale)
      = Inr ([\<lparr>n_type = ''success'', message = ''User information updated!''\<rparr>],
             Some (publicFields bobMoved))
   \<and> users (snd (snd (updateUser cfg0 \<lparr>now = 7000, freshToken = ''t3'', salt = 8\<rparr> takeOver
            bobRequest noResponse worldStale)))
      = [alice, bobMoved\<lparr>password := Hash 8 ''newpassword''\<rparr>, carol]
   \<and> fst (login cfg0 \<lparr>now = 8000, freshToken = ''t4'', salt = 0\<rparr> ''yoyo@whatever.com''
            ''password2'' anonymous noResponse
            (snd (snd (updateUser cfg0 \<lparr>now = 7000, freshToken = ''t3'', salt = 8\<rparr> takeOver
               bobRequest noResponse worldStale))))
      = Inl (UserNotFound ''Wrong credentials!'')"
proof -
  let ?e = "\<lparr>now = 7000, freshToken = ''t3'', salt = 8\<rparr>"
  let ?ctx = "publicFields bob"
  let ?us = "[alice, bobMoved\<lparr>password := Hash 8 ''newpassword''\<rparr>, carol]"
  note ws = worldStale_stores
  have h1: "req_user bobRequest = Some ?ctx" by (simp add: bobRequest_def)
  have v: "isValid ?e 2 (Some ''rt-bob'') (sessions worldStale)"
    by (simp add: ws isValid_def bobSession_def ownedBy_def)
  then have h2: "isValid ?e (a_id ?ctx) (cookie_refreshToken bobRequest) (sessions worldStale)"
    by (simp add: publicFields_def bob_def bobRequest_def)
  have wrong: "\<not> isPasswordValid (ById 2) (Some ''carolpass'') (users worldStale)"
    by (simp add: ws isPasswordValid_def getUser_def alice_def bobMoved_def bob_def)
  have old: "isPasswordValid (ById 2) (Some ''password2'') (users worldStale)"
    by (simp add: ws isPasswordValid_def getUser_def alice_def bobMoved_def bob_def)
  have chk: "checkPasswordChange ?ctx takeOver (users worldStale)
      = Inr (takeOver\<lparr>up_previousPassword := None\<rparr>)"
    by (simp add: ws checkPasswordChange_def takeOver_def noUpdates_def isPasswordValid_def
        getUser_def publicFields_def alice_def bobMoved_def bob_def carol_def)
  have st: "store_updateUser (salt ?e) (ById (a_id ?ctx))
        (updatePatch ?e ?ctx (takeOver\<lparr>up_previousPassword := None\<rparr>)) (users worldStale)
      = Inr ?us"
    by (simp add: ws store_updateUser_def updatePatch_def demotes_def publicFields_def
        takeOver_def noUpdates_def noPatch_def getUser_def alice_def bobMoved_def bob_def
        applyPatch_def)
  have nd: "\<not> demotes ?ctx (takeOver\<lparr>up_previousPassword := None\<rparr>)"
    by (simp add: demotes_def takeOver_def noUpdates_def)
  have pub: "getUserNonInternalFields (ById (a_id ?ctx)) ?us = Some (publicFields bobMoved)"
    by (simp add: getUserNonInternalFields_def getUser_def publicFields_def alice_def bobMoved_def
        bob_def)
  have r1: "fst (updateUser cfg0 ?e takeOver bobRequest noResponse worldStale)
      = Inr ([\<lparr>n_type = ''success'', message = ''User information updated!''\<rparr>],
             Some (publicFields bobMoved))"
    unfolding updateUser_after_check[OF h1 h2 chk] st using nd pub by simp
  have r2: "users (snd (snd (updateUser cfg0 ?e takeOver bobRequest noResponse worldStale))) = ?us"
    by (rule updateUser_world_after_check[OF h1 h2 chk st])
  have r3: "fst (login cfg0 \<lparr>now = 8000, freshToken = ''t4'', salt = 0\<rparr> ''yoyo@whatever.com''
            ''password2'' anonymous noResponse
            (snd (snd (updateUser cfg0 ?e takeOver bobRequest noResponse worldStale))))
      = Inl (UserNotFound ''Wrong credentials!'')"
    by (simp add: login_def r2 userExists_def getUser_def sign_def alice_def bobMoved_def bob_def)
  have t: "up_password takeOver = Some ''newpassword''" "up_previousPassword takeOver = Some ''carolpass''"
    by (simp_all add: takeOver_def)
  from h1 v wrong old r1 r2 r3 t show ?thesis by (simp add: worldStale_def)
qed

text \<open>
  The demotion reads the verified flag of the token claims, not of the stored user: a
  verified user whose claims were issued before the confirmation changes his address and
  stays verified.
\<close>

lemma updateUser_stale_verified_claim_keeps_verified:
  "map_option verified (getUser (ById 2) (users world1)) = Some True
   \<and> req_user staleRequest = Some ((publicFields bob)\<lparr>a_verified := False\<rparr>)
   \<and> fst (updateUser cfg0 \<lparr>now = 5000, freshToken = ''v-new'', salt = 0\<rparr>
            (noUpdates\<lparr>up_email := Some ''yoyo@whatever.com''\<rparr>) staleRequest noResponse world1)
      = Inr ([\<lparr>n_type = ''success'', message = ''User information updated!''\<rparr>],
             Some ((publicFields bob)\<lparr>a_email := ''yoyo@whatever.com''\<rparr>))
   \<and> users (snd (snd (updateUser cfg0 \<lparr>now = 5000, freshToken = ''v-new'', salt = 0\<rparr>
            (noUpdates\<lparr>up_email := Some ''yoyo@whatever.com''\<rparr>) staleRequest noResponse world1)))
      = [alice, bob\<lparr>email := ''yoyo@whatever.com''\<rparr>]
   \<and> verified (bob\<lparr>email := ''yoyo@whatever.com''\<rparr>)"
proof -
  let ?e = "\<lparr>now = 5000, freshToken = ''v-new'', salt = 0\<rparr>"
  let ?up = "noUpdates\<lparr>up_email := Some ''yoyo@whatever.com''\<rparr>"
  let ?ctx = "(publicFields bob)\<lparr>a_verified := False\<rparr>"
  let ?us = "[alice, bob\<lparr>email := ''yoyo@whatever.com''\<rparr>]"
  have h1: "req_user staleRequest = Some ?ctx" by (simp add: staleRequest_def)
  have h2: "isValid ?e (a_id ?ctx) (cookie_refreshToken staleRequest) (sessions world1)"
    by (simp add: isValid_def publicFields_def bob_def staleRequest_def bobRequest_def world1_def
        bobSession_def ownedBy_def)
  have chk: "checkPasswordChange ?ctx ?up (users world1) = Inr ?up"
    by (simp add: checkPasswordChange_def noUpdates_def)
  have nd: "\<not> demotes ?ctx ?up" by (simp add: demotes_def)
  have st: "store_updateUser (salt ?e) (ById (a_id ?ctx)) (updatePatch ?e ?ctx ?up) (users world1)
      = Inr ?us"
    by (simp add: store_updateUser_def updatePatch_def demotes_def publicFields_def noUpdates_def
        noPatch_def getUser_def collides_def alice_def bob_def applyPatch_def world1_def world0_def)
  have pub: "getUserNonInternalFields (ById (a_id ?ctx)) ?us
      = Some ((publicFields bob)\<lparr>a_email := ''yoyo@whatever.com''\<rparr>)"
    by (simp add: getUserNonInternalFields_def getUser_def publicFields_def alice_def bob_def)
  have r1: "fst (updateUser cfg0 ?e ?up staleRequest noResponse world1)
      = Inr ([\<lparr>n_type = ''success'', message = ''User information updated!''\<rparr>],
             Some ((publicFields bob)\<lparr>a_email := ''yoyo@whatever.com''\<rparr>))"
    unfolding updateUser_after_check[OF h1 h2 chk] st using nd pub by simp
  have r2: "users (snd (snd (updateUser cfg0 ?e ?up staleRequest noResponse world1))) = ?us"
    by (rule updateUser_world_after_check[OF h1 h2 chk st])
  have b: "map_option verified (getUser (ById 2) (users world1)) = Some True"
    "verified (bob\<lparr>email := ''yoyo@whatever.com''\<rparr>)"
    by (simp_all add: getUser_def world1_def world0_def alice_def bob_def)
  from h1 r1 r2 b show ?thesis by simp
qed

end
